theory Spec2Isabelle
  imports Main "HOL-Library.Sublist"
begin

section \<open>Text\<close>

text \<open>
  The gateway is \<^verbatim>\<open>src/server.py\<close>. Its texts are Python \<^verbatim>\<open>str\<close> values; here they are
  \<^typ>\<open>string\<close>, a list of 8-bit characters holding the UTF-8 encoding of the text.
  \<^verbatim>\<open>startswith\<close>, \<^verbatim>\<open>in\<close>, \<^verbatim>\<open>replace\<close> and \<^verbatim>\<open>join\<close> with ASCII patterns act on the
  encoding as they act on the text. \<^verbatim>\<open>strip\<close> removes every character \<^verbatim>\<open>str.isspace\<close>
  holds for, of one, two or three bytes. \<^verbatim>\<open>lower\<close> is modelled on the letters A to Z;
  the gateway only searches the lowered text for \<^verbatim>\<open>select\<close>, \<^verbatim>\<open>limit\<close> and the type
  tokens, and sends the text as the caller wrote it.
\<close>

definition isspace :: "char \<Rightarrow> bool" where
  \<comment> \<open>\<^verbatim>\<open>str.isspace\<close> on a character of one byte: TAB, LF, VT, FF, CR, FS, GS, RS, US, space.\<close>
  "isspace c \<longleftrightarrow>
     c \<in> set [CHR 0x09, CHR 0x0A, CHR 0x0B, CHR 0x0C, CHR 0x0D,
               CHR 0x1C, CHR 0x1D, CHR 0x1E, CHR 0x1F, CHR 0x20]"

definition isspace2 :: "char \<Rightarrow> char \<Rightarrow> bool" where
  \<comment> \<open>\<^verbatim>\<open>str.isspace\<close> on a character of two bytes: U+0085 and U+00A0.\<close>
  "isspace2 a b \<longleftrightarrow> a = CHR 0xC2 \<and> b \<in> set [CHR 0x85, CHR 0xA0]"

definition isspace3 :: "char \<Rightarrow> char \<Rightarrow> char \<Rightarrow> bool" where
  \<comment> \<open>\<^verbatim>\<open>str.isspace\<close> on a character of three bytes: U+1680, U+2000 to U+200A, U+2028,
      U+2029, U+202F, U+205F and U+3000.\<close>
  "isspace3 a b c \<longleftrightarrow>
     a = CHR 0xE1 \<and> b = CHR 0x9A \<and> c = CHR 0x80 \<or>
     a = CHR 0xE2 \<and> b = CHR 0x80 \<and>
       c \<in> set [CHR 0x80, CHR 0x81, CHR 0x82, CHR 0x83, CHR 0x84, CHR 0x85, CHR 0x86, CHR 0x87,
                 CHR 0x88, CHR 0x89, CHR 0x8A, CHR 0xA8, CHR 0xA9, CHR 0xAF] \<or>
     a = CHR 0xE2 \<and> b = CHR 0x81 \<and> c = CHR 0x9F \<or>
     a = CHR 0xE3 \<and> b = CHR 0x80 \<and> c = CHR 0x80"

fun lstrip :: "string \<Rightarrow> string" where
  \<comment> \<open>\<^verbatim>\<open>s.lstrip()\<close>: the whitespace characters at the front removed.\<close>
  "lstrip (a # b # c # s) =
     (if isspace a then lstrip (b # c # s)
      else if isspace2 a b then lstrip (c # s)
      else if isspace3 a b c then lstrip s
      else a # b # c # s)"
| "lstrip [a, b] = (if isspace a then lstrip [b] else if isspace2 a b then [] else [a, b])"
| "lstrip [a] = (if isspace a then [] else [a])"
| "lstrip [] = []"

fun rstrip_rev :: "string \<Rightarrow> string" where
  \<comment> \<open>\<^verbatim>\<open>s.rstrip()\<close> on the text given last byte first: the whitespace characters at
      the end removed.\<close>
  "rstrip_rev (c # b # a # s) =
     (if isspace c then rstrip_rev (b # a # s)
      else if isspace2 b c then rstrip_rev (a # s)
      else if isspace3 a b c then rstrip_rev s
      else c # b # a # s)"
| "rstrip_rev [b, a] = (if isspace b then rstrip_rev [a] else if isspace2 a b then [] else [b, a])"
| "rstrip_rev [a] = (if isspace a then [] else [a])"
| "rstrip_rev [] = []"

definition strip :: "string \<Rightarrow> string" where
  \<comment> \<open>\<^verbatim>\<open>s.strip()\<close>: leading and trailing whitespace removed.\<close>
  "strip s = rev (rstrip_rev (rev (lstrip s)))"

definition lower_char :: "char \<Rightarrow> char" where
  "lower_char c =
     (case map_of (zip ''ABCDEFGHIJKLMNOPQRSTUVWXYZ'' ''abcdefghijklmnopqrstuvwxyz'') c of
        Some d \<Rightarrow> d
      | None \<Rightarrow> c)"

definition lower :: "string \<Rightarrow> string" where
  \<comment> \<open>\<^verbatim>\<open>s.lower()\<close>\<close>
  "lower s = map lower_char s"

definition startswith :: "string \<Rightarrow> string \<Rightarrow> bool" where
  \<comment> \<open>\<^verbatim>\<open>s.startswith(p)\<close>\<close>
  "startswith s p \<longleftrightarrow> prefix p s"

fun contains :: "string \<Rightarrow> string \<Rightarrow> bool" where
  \<comment> \<open>\<^verbatim>\<open>p in s\<close>: \<open>p\<close> occurs in \<open>s\<close> as a contiguous run.\<close>
  "contains [] p \<longleftrightarrow> p = []"
| "contains (c # cs) p \<longleftrightarrow> prefix p (c # cs) \<or> contains cs p"

definition replace :: "char \<Rightarrow> string \<Rightarrow> string \<Rightarrow> string" where
  \<comment> \<open>\<^verbatim>\<open>s.replace(c, r)\<close> for a one-character pattern \<open>c\<close>.\<close>
  "replace c r s = concat (map (\<lambda>x. if x = c then r else [x]) s)"

fun join :: "string \<Rightarrow> string list \<Rightarrow> string" where
  \<comment> \<open>\<^verbatim>\<open>sep.join(xs)\<close>\<close>
  "join sep [] = []"
| "join sep [x] = x"
| "join sep (x # y # ys) = x @ sep @ join sep (y # ys)"

fun str_nat :: "nat \<Rightarrow> string" where
  "str_nat n =
     (if n < 10 then [''0123456789'' ! n]
      else str_nat (n div 10) @ [''0123456789'' ! (n mod 10)])"

definition str_int :: "int \<Rightarrow> string" where
  \<comment> \<open>\<^verbatim>\<open>str(n)\<close> of a Python \<^verbatim>\<open>int\<close>: decimal digits, a minus sign when negative.\<close>
  "str_int n = (if n < 0 then ''-'' @ str_nat (nat (- n)) else str_nat (nat n))"

subsection \<open>The literals of the source that are not ASCII\<close>




definition zh_type :: string where \<comment> \<open>line 88: U+7C7B U+578B\<close>
  "zh_type =
    [CHR 0xE7, CHR 0xB1, CHR 0xBB, CHR 0xE5, CHR 0x9E, CHR 0x8B]"






definition zh_database_relations :: string where \<comment> \<open>line 130: U+6570 U+636E U+5E93 U+5173 U+7CFB\<close>
  "zh_database_relations =
    [CHR 0xE6, CHR 0x95, CHR 0xB0, CHR 0xE6, CHR 0x8D, CHR 0xAE, CHR 0xE5, CHR 0xBA,
     CHR 0x93, CHR 0xE5, CHR 0x85, CHR 0xB3, CHR 0xE7, CHR 0xB3, CHR 0xBB]"

definition zh_table :: string where \<comment> \<open>line 153: U+8868\<close>
  "zh_table =
    [CHR 0xE8, CHR 0xA1, CHR 0xA8]"

definition zh_foreign_keys_of :: string where \<comment> \<open>line 153: U+7684 U+5916 U+952E U+5173 U+7CFB\<close>
  "zh_foreign_keys_of =
    [CHR 0xE7, CHR 0x9A, CHR 0x84, CHR 0xE5, CHR 0xA4, CHR 0x96, CHR 0xE9, CHR 0x94,
     CHR 0xAE, CHR 0xE5, CHR 0x85, CHR 0xB3, CHR 0xE7, CHR 0xB3, CHR 0xBB]"

definition zh_column_name :: string where \<comment> \<open>line 154: U+5217 U+540D\<close>
  "zh_column_name =
    [CHR 0xE5, CHR 0x88, CHR 0x97, CHR 0xE5, CHR 0x90, CHR 0x8D]"

definition zh_constraint_name :: string where \<comment> \<open>line 154: U+7EA6 U+675F U+540D\<close>
  "zh_constraint_name =
    [CHR 0xE7, CHR 0xBA, CHR 0xA6, CHR 0xE6, CHR 0x9D, CHR 0x9F, CHR 0xE5, CHR 0x90,
     CHR 0x8D]"

definition zh_referenced_table :: string where \<comment> \<open>line 154: U+5F15 U+7528 U+8868\<close>
  "zh_referenced_table =
    [CHR 0xE5, CHR 0xBC, CHR 0x95, CHR 0xE7, CHR 0x94, CHR 0xA8, CHR 0xE8, CHR 0xA1,
     CHR 0xA8]"

definition zh_referenced_column :: string where \<comment> \<open>line 154: U+5F15 U+7528 U+5217\<close>
  "zh_referenced_column =
    [CHR 0xE5, CHR 0xBC, CHR 0x95, CHR 0xE7, CHR 0x94, CHR 0xA8, CHR 0xE5, CHR 0x88,
     CHR 0x97]"

definition zh_no_relations_found :: string where \<comment> \<open>line 163: U+672A U+627E U+5230 U+8868 U+4E4B U+95F4 U+7684 U+5173 U+7CFB U+3002\<close>
  "zh_no_relations_found =
    [CHR 0xE6, CHR 0x9C, CHR 0xAA, CHR 0xE6, CHR 0x89, CHR 0xBE, CHR 0xE5, CHR 0x88,
     CHR 0xB0, CHR 0xE8, CHR 0xA1, CHR 0xA8, CHR 0xE4, CHR 0xB9, CHR 0x8B, CHR 0xE9,
     CHR 0x97, CHR 0xB4, CHR 0xE7, CHR 0x9A, CHR 0x84, CHR 0xE5, CHR 0x85, CHR 0xB3,
     CHR 0xE7, CHR 0xB3, CHR 0xBB, CHR 0xE3, CHR 0x80, CHR 0x82]"

definition zh_error :: string where \<comment> \<open>line 180: U+9519 U+8BEF\<close>
  "zh_error =
    [CHR 0xE9, CHR 0x94, CHR 0x99, CHR 0xE8, CHR 0xAF, CHR 0xAF]"

definition zh_only_supports :: string where \<comment> \<open>line 180: U+53EA U+652F U+6301\<close>
  "zh_only_supports =
    [CHR 0xE5, CHR 0x8F, CHR 0xAA, CHR 0xE6, CHR 0x94, CHR 0xAF, CHR 0xE6, CHR 0x8C,
     CHR 0x81]"

definition zh_queries_for_safety :: string where \<comment> \<open>line 180: U+67E5 U+8BE2 U+4EE5 U+4FDD U+8BC1 U+6570 U+636E U+5E93 U+5B89 U+5168\<close>
  "zh_queries_for_safety =
    [CHR 0xE6, CHR 0x9F, CHR 0xA5, CHR 0xE8, CHR 0xAF, CHR 0xA2, CHR 0xE4, CHR 0xBB,
     CHR 0xA5, CHR 0xE4, CHR 0xBF, CHR 0x9D, CHR 0xE8, CHR 0xAF, CHR 0x81, CHR 0xE6,
     CHR 0x95, CHR 0xB0, CHR 0xE6, CHR 0x8D, CHR 0xAE, CHR 0xE5, CHR 0xBA, CHR 0x93,
     CHR 0xE5, CHR 0xAE, CHR 0x89, CHR 0xE5, CHR 0x85, CHR 0xA8]"

definition zh_no_data_returned :: string where \<comment> \<open>line 195: U+67E5 U+8BE2 U+6267 U+884C U+6210 U+529F U+FF0C U+4F46 U+6CA1 U+6709 U+8FD4 U+56DE U+6570 U+636E U+3002\<close>
  "zh_no_data_returned =
    [CHR 0xE6, CHR 0x9F, CHR 0xA5, CHR 0xE8, CHR 0xAF, CHR 0xA2, CHR 0xE6, CHR 0x89,
     CHR 0xA7, CHR 0xE8, CHR 0xA1, CHR 0x8C, CHR 0xE6, CHR 0x88, CHR 0x90, CHR 0xE5,
     CHR 0x8A, CHR 0x9F, CHR 0xEF, CHR 0xBC, CHR 0x8C, CHR 0xE4, CHR 0xBD, CHR 0x86,
     CHR 0xE6, CHR 0xB2, CHR 0xA1, CHR 0xE6, CHR 0x9C, CHR 0x89, CHR 0xE8, CHR 0xBF,
     CHR 0x94, CHR 0xE5, CHR 0x9B, CHR 0x9E, CHR 0xE6, CHR 0x95, CHR 0xB0, CHR 0xE6,
     CHR 0x8D, CHR 0xAE, CHR 0xE3, CHR 0x80, CHR 0x82]"

definition zh_query_result :: string where \<comment> \<open>line 220: U+67E5 U+8BE2 U+7ED3 U+679C\<close>
  "zh_query_result =
    [CHR 0xE6, CHR 0x9F, CHR 0xA5, CHR 0xE8, CHR 0xAF, CHR 0xA2, CHR 0xE7, CHR 0xBB,
     CHR 0x93, CHR 0xE6, CHR 0x9E, CHR 0x9C]"

definition zh_rows :: string where \<comment> \<open>line 220: U+884C\<close>
  "zh_rows =
    [CHR 0xE8, CHR 0xA1, CHR 0x8C]"

definition zh_query_exec_error :: string where \<comment> \<open>line 224: U+67E5 U+8BE2 U+6267 U+884C U+9519 U+8BEF\<close>
  "zh_query_exec_error =
    [CHR 0xE6, CHR 0x9F, CHR 0xA5, CHR 0xE8, CHR 0xAF, CHR 0xA2, CHR 0xE6, CHR 0x89,
     CHR 0xA7, CHR 0xE8, CHR 0xA1, CHR 0x8C, CHR 0xE9, CHR 0x94, CHR 0x99, CHR 0xE8,
     CHR 0xAF, CHR 0xAF]"

definition zh_not_exist :: string where \<comment> \<open>line 242: U+4E0D U+5B58 U+5728\<close>
  "zh_not_exist =
    [CHR 0xE4, CHR 0xB8, CHR 0x8D, CHR 0xE5, CHR 0xAD, CHR 0x98, CHR 0xE5, CHR 0x9C,
     CHR 0xA8]"

definition zh_statistics :: string where \<comment> \<open>line 305: U+7EDF U+8BA1 U+4FE1 U+606F\<close>
  "zh_statistics =
    [CHR 0xE7, CHR 0xBB, CHR 0x9F, CHR 0xE8, CHR 0xAE, CHR 0xA1, CHR 0xE4, CHR 0xBF,
     CHR 0xA1, CHR 0xE6, CHR 0x81, CHR 0xAF]"

definition zh_total_rows :: string where \<comment> \<open>line 306: U+603B U+884C U+6570\<close>
  "zh_total_rows =
    [CHR 0xE6, CHR 0x80, CHR 0xBB, CHR 0xE8, CHR 0xA1, CHR 0x8C, CHR 0xE6, CHR 0x95,
     CHR 0xB0]"

definition zh_numeric_columns :: string where \<comment> \<open>line 311: U+6570 U+503C U+5217 U+7EDF U+8BA1\<close>
  "zh_numeric_columns =
    [CHR 0xE6, CHR 0x95, CHR 0xB0, CHR 0xE5, CHR 0x80, CHR 0xBC, CHR 0xE5, CHR 0x88,
     CHR 0x97, CHR 0xE7, CHR 0xBB, CHR 0x9F, CHR 0xE8, CHR 0xAE, CHR 0xA1]"

definition zh_minimum :: string where \<comment> \<open>line 312: U+6700 U+5C0F U+503C\<close>
  "zh_minimum =
    [CHR 0xE6, CHR 0x9C, CHR 0x80, CHR 0xE5, CHR 0xB0, CHR 0x8F, CHR 0xE5, CHR 0x80,
     CHR 0xBC]"

definition zh_maximum :: string where \<comment> \<open>line 312: U+6700 U+5927 U+503C\<close>
  "zh_maximum =
    [CHR 0xE6, CHR 0x9C, CHR 0x80, CHR 0xE5, CHR 0xA4, CHR 0xA7, CHR 0xE5, CHR 0x80,
     CHR 0xBC]"

definition zh_mean :: string where \<comment> \<open>line 312: U+5E73 U+5747 U+503C\<close>
  "zh_mean =
    [CHR 0xE5, CHR 0xB9, CHR 0xB3, CHR 0xE5, CHR 0x9D, CHR 0x87, CHR 0xE5, CHR 0x80,
     CHR 0xBC]"

definition zh_std_dev :: string where \<comment> \<open>line 312: U+6807 U+51C6 U+5DEE\<close>
  "zh_std_dev =
    [CHR 0xE6, CHR 0xA0, CHR 0x87, CHR 0xE5, CHR 0x87, CHR 0x86, CHR 0xE5, CHR 0xB7,
     CHR 0xAE]"

definition zh_text_columns :: string where \<comment> \<open>line 321: U+6587 U+672C U+5217 U+7EDF U+8BA1\<close>
  "zh_text_columns =
    [CHR 0xE6, CHR 0x96, CHR 0x87, CHR 0xE6, CHR 0x9C, CHR 0xAC, CHR 0xE5, CHR 0x88,
     CHR 0x97, CHR 0xE7, CHR 0xBB, CHR 0x9F, CHR 0xE8, CHR 0xAE, CHR 0xA1]"

definition zh_unique_count :: string where \<comment> \<open>line 322: U+552F U+4E00 U+503C U+6570 U+91CF\<close>
  "zh_unique_count =
    [CHR 0xE5, CHR 0x94, CHR 0xAF, CHR 0xE4, CHR 0xB8, CHR 0x80, CHR 0xE5, CHR 0x80,
     CHR 0xBC, CHR 0xE6, CHR 0x95, CHR 0xB0, CHR 0xE9, CHR 0x87, CHR 0x8F]"

definition zh_mean_length :: string where \<comment> \<open>line 322: U+5E73 U+5747 U+957F U+5EA6\<close>
  "zh_mean_length =
    [CHR 0xE5, CHR 0xB9, CHR 0xB3, CHR 0xE5, CHR 0x9D, CHR 0x87, CHR 0xE9, CHR 0x95,
     CHR 0xBF, CHR 0xE5, CHR 0xBA, CHR 0xA6]"

definition zh_other_columns :: string where \<comment> \<open>line 331: U+5176 U+4ED6 U+5217 U+7EDF U+8BA1\<close>
  "zh_other_columns =
    [CHR 0xE5, CHR 0x85, CHR 0xB6, CHR 0xE4, CHR 0xBB, CHR 0x96, CHR 0xE5, CHR 0x88,
     CHR 0x97, CHR 0xE7, CHR 0xBB, CHR 0x9F, CHR 0xE8, CHR 0xAE, CHR 0xA1]"

definition zh_stats_error :: string where \<comment> \<open>line 339: U+83B7 U+53D6 U+7EDF U+8BA1 U+4FE1 U+606F U+9519 U+8BEF\<close>
  "zh_stats_error =
    [CHR 0xE8, CHR 0x8E, CHR 0xB7, CHR 0xE5, CHR 0x8F, CHR 0x96, CHR 0xE7, CHR 0xBB,
     CHR 0x9F, CHR 0xE8, CHR 0xAE, CHR 0xA1, CHR 0xE4, CHR 0xBF, CHR 0xA1, CHR 0xE6,
     CHR 0x81, CHR 0xAF, CHR 0xE9, CHR 0x94, CHR 0x99, CHR 0xE8, CHR 0xAF, CHR 0xAF]"

section \<open>Values, the interpreter's library, the database\<close>

text \<open>
  The values a cell of a result set can hold, as far as the gateway tells them apart:
  \<^verbatim>\<open>None\<close>, an \<^verbatim>\<open>int\<close>, a \<^verbatim>\<open>float\<close> (\<open>PFloat m e\<close> is \<open>m * 2 ^ e\<close>), a
  \<^verbatim>\<open>decimal.Decimal\<close> (\<open>PDecimal m k\<close> is \<open>m / 10 ^ k\<close>, the form of SQL \<^verbatim>\<open>DECIMAL\<close>),
  a \<^verbatim>\<open>str\<close>, a \<^verbatim>\<open>list\<close> and a \<^verbatim>\<open>dict\<close> with text keys.
\<close>

datatype pyval =
    PNone
  | PInt int
  | PFloat int int
  | PDecimal int nat
  | PStr string
  | PList "pyval list"
  | PDict "(string \<times> pyval) list"

text \<open>An exception: its class name and the text \<^verbatim>\<open>str(e)\<close> gives.\<close>

datatype exn = Exn string string

fun exn_text :: "exn \<Rightarrow> string" where
  "exn_text (Exn cls msg) = msg"

text \<open>
  What the gateway takes from Python's library and does not define itself: the text of a
  float, a decimal, a list or a dict (\<^verbatim>\<open>str\<close>, \<^verbatim>\<open>repr\<close>), \<^verbatim>\<open>json.dumps\<close>, and
  \<^verbatim>\<open>round(float(v), 2)\<close>. Floating point and JSON are not modelled: the three functions
  are parameters of every operation.
\<close>

record pylib =
  py_repr :: "pyval \<Rightarrow> string"
  json_dumps :: "pyval \<Rightarrow> exn + string"
  round_float2 :: "pyval \<Rightarrow> exn + pyval"

fun truthy :: "pyval \<Rightarrow> bool" where
  \<comment> \<open>Python's truth value of an object, as \<^verbatim>\<open>if v\<close> and \<^verbatim>\<open>not v\<close> test it.\<close>
  "truthy PNone \<longleftrightarrow> False"
| "truthy (PInt n) \<longleftrightarrow> n \<noteq> 0"
| "truthy (PFloat m e) \<longleftrightarrow> m \<noteq> 0"
| "truthy (PDecimal m k) \<longleftrightarrow> m \<noteq> 0"
| "truthy (PStr s) \<longleftrightarrow> s \<noteq> []"
| "truthy (PList xs) \<longleftrightarrow> xs \<noteq> []"
| "truthy (PDict kvs) \<longleftrightarrow> kvs \<noteq> []"

fun py_str :: "pylib \<Rightarrow> pyval \<Rightarrow> string" where
  \<comment> \<open>\<^verbatim>\<open>str(v)\<close>, which is also what \<^verbatim>\<open>{v}\<close> in an f-string gives.\<close>
  "py_str L PNone = ''None''"
| "py_str L (PInt n) = str_int n"
| "py_str L (PStr s) = s"
| "py_str L v = py_repr L v"

text \<open>
  A statement as \<^verbatim>\<open>cursor.execute\<close> receives it: the text alone, or a text with
  \<^verbatim>\<open>%s\<close> placeholders and the arguments the driver quotes into it. A row of a result set
  is the list of its columns, each with its name: a plain cursor hands out the values
  as a tuple, a \<^verbatim>\<open>DictCursor\<close> hands out the row as a dict keyed by column name.
\<close>

datatype request = Query string | QueryArgs string "pyval list"

type_synonym row = "(string \<times> pyval) list"

text \<open>
  The database behind the pool is a parameter: \<open>db_name\<close> is \<^verbatim>\<open>DB_CONFIG['db']\<close>
  (\<open>None\<close> when the variable is not set), \<open>acquire\<close> is the exception
  \<^verbatim>\<open>pool.acquire()\<close> raises, if any, and \<open>answer\<close> is what the engine does with a
  statement: an exception, or the rows of its result set. One operation sees one
  snapshot of the database: the answer to a statement does not depend on the statements
  before it.
\<close>

record env =
  db_name :: "string option"
  acquire :: "exn option"
  answer :: "request \<Rightarrow> exn + row list"

text \<open>What an operation does to the pool and the connection, in order.\<close>

datatype event = Acquire | Execute request | Release

text \<open>
  A computation that may raise and that leaves a trace: the result (\<open>Inl\<close> an exception
  that propagates, \<open>Inr\<close> a value) and the events, oldest first.
\<close>

type_synonym 'a action = "(exn + 'a) \<times> event list"

definition succeed :: "'a \<Rightarrow> 'a action" where
  "succeed x = (Inr x, [])"

definition lift :: "exn + 'a \<Rightarrow> 'a action" where
  "lift r = (r, [])"

definition and_then :: "'a action \<Rightarrow> ('a \<Rightarrow> 'b action) \<Rightarrow> 'b action" where
  \<comment> \<open>Sequencing: an exception of the first part skips the second.\<close>
  "and_then m f =
     (case m of
        (Inl e, t) \<Rightarrow> (Inl e, t)
      | (Inr x, t) \<Rightarrow> (case f x of (r, t') \<Rightarrow> (r, t @ t')))"

definition execute :: "env \<Rightarrow> request \<Rightarrow> (row list) action" where
  \<comment> \<open>\<^verbatim>\<open>await cursor.execute(...)\<close>: the statement reaches the engine.\<close>
  "execute E q = (answer E q, [Execute q])"

definition with_connection :: "env \<Rightarrow> 'a action \<Rightarrow> 'a action" where
  \<comment> \<open>\<^verbatim>\<open>async with pool.acquire() as conn: async with conn.cursor() as cursor: body\<close>.
      The connection goes back to the pool however the body ends.\<close>
  "with_connection E body =
     (case acquire E of
        Some e \<Rightarrow> (Inl e, [Acquire])
      | None \<Rightarrow> (fst body, Acquire # snd body @ [Release]))"


section \<open>\<^verbatim>\<open>query_data\<close>: the guarded read-only query\<close>

definition reject_message :: string where
  \<comment> \<open>line 180\<close>
  "reject_message = zh_error @ '': '' @ zh_only_supports @ ''SELECT'' @ zh_queries_for_safety"

definition add_limit :: "string \<Rightarrow> int option \<Rightarrow> string" where
  \<comment> \<open>lines 183-184: \<^verbatim>\<open>if "limit" not in sql.lower() and limit is not None: sql += f" LIMIT {limit}"\<close>\<close>
  "add_limit sql limit =
     (if \<not> contains (lower sql) ''limit''
      then (case limit of Some n \<Rightarrow> sql @ '' LIMIT '' @ str_int n | None \<Rightarrow> sql)
      else sql)"

definition is_struct :: "pyval \<Rightarrow> bool" where
  \<comment> \<open>\<^verbatim>\<open>isinstance(cell, (dict, list))\<close>\<close>
  "is_struct v = (case v of PList xs \<Rightarrow> True | PDict kvs \<Rightarrow> True | _ \<Rightarrow> False)"

definition cell_text :: "pylib \<Rightarrow> pyval \<Rightarrow> exn + string" where
  \<comment> \<open>lines 213-217, up to \<^verbatim>\<open>str(cell)\<close>: \<^verbatim>\<open>json.dumps\<close> may raise.\<close>
  "cell_text L cell =
     (if cell = PNone then Inr ''NULL''
      else if is_struct cell then json_dumps L cell
      else Inr (py_str L cell))"

definition escape_pipe :: "string \<Rightarrow> string" where
  \<comment> \<open>line 217: \<^verbatim>\<open>.replace("|", "\\|")\<close>, a backslash before every bar.\<close>
  "escape_pipe s = replace (CHR ''|'') [CHR 0x5C, CHR ''|''] s"

definition format_cell :: "pylib \<Rightarrow> pyval \<Rightarrow> exn + string" where
  "format_cell L cell =
     (case cell_text L cell of Inl e \<Rightarrow> Inl e | Inr s \<Rightarrow> Inr (escape_pipe s))"

definition key_error :: "pylib \<Rightarrow> string \<Rightarrow> exn" where
  \<comment> \<open>\<^verbatim>\<open>row[col]\<close> on a dict without the key: the text of a \<^verbatim>\<open>KeyError\<close> is the key's \<^verbatim>\<open>repr\<close>.\<close>
  "key_error L k = Exn ''KeyError'' (py_repr L (PStr k))"

fun format_row :: "pylib \<Rightarrow> string list \<Rightarrow> row \<Rightarrow> string list \<Rightarrow> exn + string list" where
  \<comment> \<open>lines 210-217: the loop over the columns; the last argument is \<^verbatim>\<open>formatted_row\<close>.\<close>
  "format_row L [] row formatted_row = Inr formatted_row"
| "format_row L (col # cols) row formatted_row =
     (case map_of row col of
        None \<Rightarrow> Inl (key_error L col)
      | Some cell \<Rightarrow>
          (case format_cell L cell of
             Inl e \<Rightarrow> Inl e
           | Inr s \<Rightarrow> format_row L cols row (formatted_row @ [s])))"

fun format_rows :: "pylib \<Rightarrow> string list \<Rightarrow> row list \<Rightarrow> string \<Rightarrow> exn + string" where
  \<comment> \<open>lines 208-218: the loop over the rows; the last argument is \<^verbatim>\<open>table\<close>.\<close>
  "format_rows L columns [] table = Inr table"
| "format_rows L columns (row # rows) table =
     (case format_row L columns row [] of
        Inl e \<Rightarrow> Inl e
      | Inr formatted_row \<Rightarrow>
          format_rows L columns rows
            (table @ ''| '' @ join '' | '' formatted_row @ '' |\<newline>''))"

definition no_rows_message :: string where
  \<comment> \<open>line 195\<close>
  "no_rows_message = zh_no_data_returned"

definition render_results :: "pylib \<Rightarrow> row list \<Rightarrow> exn + string" where
  \<comment> \<open>lines 193-220. \<^verbatim>\<open>fetchall\<close> of a \<^verbatim>\<open>DictCursor\<close> gives a list, so the \<^verbatim>\<open>else\<close> of
      line 221 is never taken.\<close>
  "render_results L results =
     (case results of
        [] \<Rightarrow> Inr no_rows_message
      | first # rest \<Rightarrow>
          (let columns = map fst first;
               table = ''| '' @ join '' | '' columns @ '' |\<newline>'';
               table = table @ ''| '' @ join '' | '' (map (\<lambda>c. ''---'') columns) @ '' |\<newline>''
           in case format_rows L columns results table of
                Inl e \<Rightarrow> Inl e
              | Inr table \<Rightarrow>
                  Inr (zh_query_result @ '' ('' @ str_int (int (length results)) @ '' ''
                       @ zh_rows @ ''):\<newline>\<newline>'' @ table)))"

definition query_error :: "exn \<Rightarrow> string" where
  \<comment> \<open>line 224\<close>
  "query_error e = zh_query_exec_error @ '': '' @ exn_text e"

definition query_block :: "pylib \<Rightarrow> env \<Rightarrow> string \<Rightarrow> string action" where
  \<comment> \<open>lines 188-221, the suite of the \<^verbatim>\<open>try\<close>: the result is \<open>Inl\<close> when an exception
      leaves it.\<close>
  "query_block L E sql =
     with_connection E
       (and_then (execute E (Query sql)) (\<lambda>results. lift (render_results L results)))"

definition query_data :: "pylib \<Rightarrow> env \<Rightarrow> string \<Rightarrow> int option \<Rightarrow> string action" where
  \<comment> \<open>lines 169-224. The result is \<open>Inl\<close> when an exception leaves the function.\<close>
  "query_data L E sql limit =
     (let sql = strip sql in
      if \<not> startswith (lower sql) ''select'' then succeed reject_message
      else
        (let sql = add_limit sql limit in
         case query_block L E sql of
           (Inl e, t) \<Rightarrow> (Inr (query_error e), t)
         | (Inr s, t) \<Rightarrow> (Inr s, t)))"


section \<open>Plain cursors, tuples and loops\<close>

type_synonym tuple = "pyval list"

definition tuples :: "row list \<Rightarrow> tuple list" where
  \<comment> \<open>\<^verbatim>\<open>await cursor.fetchall()\<close> on a plain cursor\<close>
  "tuples rows = map (map snd) rows"

definition fetchone :: "row list \<Rightarrow> tuple option" where
  \<comment> \<open>\<^verbatim>\<open>await cursor.fetchone()\<close> right after \<^verbatim>\<open>execute\<close>: the first row, or \<^verbatim>\<open>None\<close>\<close>
  "fetchone rows = (case rows of [] \<Rightarrow> None | r # rest \<Rightarrow> Some (map snd r))"

definition item :: "tuple \<Rightarrow> nat \<Rightarrow> exn + pyval" where
  \<comment> \<open>\<^verbatim>\<open>t[i]\<close> on a tuple\<close>
  "item t i =
     (if i < length t then Inr (t ! i)
      else Inl (Exn ''IndexError'' ''tuple index out of range''))"

definition item_opt :: "tuple option \<Rightarrow> nat \<Rightarrow> exn + pyval" where
  \<comment> \<open>\<^verbatim>\<open>r[i]\<close> where \<open>r\<close> is what \<^verbatim>\<open>fetchone\<close> gave\<close>
  "item_opt r i =
     (case r of
        None \<Rightarrow> Inl (Exn ''TypeError'' ([CHR 0x27] @ ''NoneType'' @ [CHR 0x27] @ '' object is not subscriptable''))
      | Some t \<Rightarrow> item t i)"

definition bind_result :: "exn + 'a \<Rightarrow> ('a \<Rightarrow> exn + 'b) \<Rightarrow> exn + 'b" where
  "bind_result r f = (case r of Inl e \<Rightarrow> Inl e | Inr x \<Rightarrow> f x)"

fun for_each :: "('a \<Rightarrow> 's \<Rightarrow> 's action) \<Rightarrow> 'a list \<Rightarrow> 's \<Rightarrow> 's action" where
  \<comment> \<open>\<^verbatim>\<open>for x in xs: body\<close>, where the body updates the variables \<open>s\<close> of the loop,
      may reach the engine and may raise: the first exception ends the loop.\<close>
  "for_each body [] s = (Inr s, [])"
| "for_each body (x # xs) s =
     (case body x s of
        (Inl e, t) \<Rightarrow> (Inl e, t)
      | (Inr s', t) \<Rightarrow> (case for_each body xs s' of (r, t') \<Rightarrow> (r, t @ t')))"

section \<open>\<^verbatim>\<open>get_table_schema\<close>\<close>

definition describe_sql :: "string \<Rightarrow> string" where
  \<comment> \<open>lines 78 and 249\<close>
  "describe_sql table_name = ''DESCRIBE `'' @ table_name @ ''`''"

definition show_create_sql :: "string \<Rightarrow> string" where
  \<comment> \<open>line 82\<close>
  "show_create_sql table_name = ''SHOW CREATE TABLE `'' @ table_name @ ''`''"






section \<open>\<^verbatim>\<open>get_relationships\<close>\<close>

definition foreign_key_sql :: "string \<Rightarrow> string \<Rightarrow> string" where
  \<comment> \<open>lines 136-148\<close>
  "foreign_key_sql db table_name =
     ''\<newline>'' @
     ''                    SELECT \<newline>'' @
     ''                        TABLE_NAME as table_name,\<newline>'' @
     ''                        COLUMN_NAME as column_name,\<newline>'' @
     ''                        CONSTRAINT_NAME as constraint_name,\<newline>'' @
     ''                        REFERENCED_TABLE_NAME as referenced_table_name,\<newline>'' @
     ''                        REFERENCED_COLUMN_NAME as referenced_column_name\<newline>'' @
     ''                    FROM\<newline>'' @
     ''                        INFORMATION_SCHEMA.KEY_COLUMN_USAGE\<newline>'' @
     ''                    WHERE\<newline>'' @
     ''                        REFERENCED_TABLE_SCHEMA = '' @
     [CHR 0x27] @
     db @
     [CHR 0x27] @
     '' AND\<newline>'' @
     ''                        TABLE_NAME = '' @
     [CHR 0x27] @
     table_name @
     [CHR 0x27] @
     ''\<newline>'' @
     ''                ''"

definition db_text :: "env \<Rightarrow> string" where
  \<comment> \<open>\<^verbatim>\<open>{DB_CONFIG['db']}\<close> in an f-string\<close>
  "db_text E = (case db_name E of None \<Rightarrow> ''None'' | Some d \<Rightarrow> d)"

definition relation_line :: "pylib \<Rightarrow> tuple \<Rightarrow> exn + string" where
  \<comment> \<open>line 158\<close>
  "relation_line L rel =
     bind_result (item rel 1) (\<lambda>r1.
     bind_result (item rel 2) (\<lambda>r2.
     bind_result (item rel 3) (\<lambda>r3.
     bind_result (item rel 4) (\<lambda>r4.
       Inr (''| '' @ py_str L r1 @ '' | '' @ py_str L r2 @ '' | '' @ py_str L r3 @ '' | ''
            @ py_str L r4 @ '' |\<newline>'')))))"

fun relation_lines :: "pylib \<Rightarrow> tuple list \<Rightarrow> string \<Rightarrow> exn + string" where
  \<comment> \<open>lines 157-158; the last argument is \<^verbatim>\<open>result\<close>\<close>
  "relation_lines L [] result = Inr result"
| "relation_lines L (rel # rels) result =
     (case relation_line L rel of
        Inl e \<Rightarrow> Inl e
      | Inr line \<Rightarrow> relation_lines L rels (result @ line))"

definition relations_header :: "string \<Rightarrow> string" where
  \<comment> \<open>lines 153-155\<close>
  "relations_header table_name =
     ''## '' @ zh_table @ '' `'' @ table_name @ ''` '' @ zh_foreign_keys_of @ ''\<newline>\<newline>''
     @ ''| '' @ zh_column_name @ '' | '' @ zh_constraint_name @ '' | '' @ zh_referenced_table
     @ '' | '' @ zh_referenced_column @ '' |\<newline>''
     @ ''| ---- | ------ | ------ | ------ |\<newline>''"

definition table_relations ::
    "pylib \<Rightarrow> env \<Rightarrow> tuple \<Rightarrow> string \<times> bool \<Rightarrow> (string \<times> bool) action" where
  \<comment> \<open>lines 135-160, the body of the loop over the tables; the variables of the loop
      are \<^verbatim>\<open>result\<close> and \<^verbatim>\<open>has_relations\<close>\<close>
  "table_relations L E table vars =
     (case vars of (result, has_relations) \<Rightarrow>
        and_then (lift (item table 0)) (\<lambda>table_name.
        and_then (execute E (Query (foreign_key_sql (db_text E) (py_str L table_name)))) (\<lambda>rows.
          let relations = tuples rows in
          if relations \<noteq> [] then
            lift
              (bind_result
                 (relation_lines L relations (result @ relations_header (py_str L table_name)))
                 (\<lambda>result. Inr (result @ ''\<newline>'', True)))
          else succeed (result, has_relations))))"

definition relations_title :: string where
  \<comment> \<open>line 130\<close>
  "relations_title = ''# '' @ zh_database_relations @ ''\<newline>\<newline>''"

definition no_relations_message :: string where
  \<comment> \<open>line 163\<close>
  "no_relations_message = zh_no_relations_found @ ''\<newline>''"

definition get_relationships :: "pylib \<Rightarrow> env \<Rightarrow> string action" where
  \<comment> \<open>lines 121-165: no exception is caught here\<close>
  "get_relationships L E =
     with_connection E
       (and_then (execute E (Query ''SHOW TABLES'')) (\<lambda>rows.
          let tables = tuples rows in
        and_then (for_each (table_relations L E) tables (relations_title, False)) (\<lambda>vars.
          case vars of (result, has_relations) \<Rightarrow>
            succeed (if \<not> has_relations then result @ no_relations_message else result))))"


section \<open>\<^verbatim>\<open>table_statistics\<close>\<close>

definition exists_request :: "string \<Rightarrow> request" where
  \<comment> \<open>line 240: \<^verbatim>\<open>cursor.execute("SHOW TABLES LIKE %s", (table_name,))\<close>\<close>
  "exists_request table_name = QueryArgs ''SHOW TABLES LIKE %s'' [PStr table_name]"

definition count_sql :: "string \<Rightarrow> string" where
  \<comment> \<open>line 245\<close>
  "count_sql table_name = ''SELECT COUNT(*) as count FROM `'' @ table_name @ ''`''"

definition numeric_sql :: "string \<Rightarrow> string \<Rightarrow> string" where
  \<comment> \<open>lines 260-267\<close>
  "numeric_sql table_name col_name =
     ''\<newline>'' @
     ''                            SELECT \<newline>'' @
     ''                                MIN(`'' @
     col_name @
     ''`) as min_val,\<newline>'' @
     ''                                MAX(`'' @
     col_name @
     ''`) as max_val,\<newline>'' @
     ''                                AVG(`'' @
     col_name @
     ''`) as avg_val,\<newline>'' @
     ''                                STD(`'' @
     col_name @
     ''`) as std_val\<newline>'' @
     ''                            FROM `'' @
     table_name @
     ''`\<newline>'' @
     ''                        ''"

definition text_sql :: "string \<Rightarrow> string \<Rightarrow> string" where
  \<comment> \<open>lines 278-283\<close>
  "text_sql table_name col_name =
     ''\<newline>'' @
     ''                            SELECT \<newline>'' @
     ''                                COUNT(DISTINCT `'' @
     col_name @
     ''`) as unique_count,\<newline>'' @
     ''                                AVG(LENGTH(`'' @
     col_name @
     ''`)) as avg_length\<newline>'' @
     ''                            FROM `'' @
     table_name @
     ''`\<newline>'' @
     ''                        ''"

definition other_sql :: "string \<Rightarrow> string \<Rightarrow> string" where
  \<comment> \<open>lines 293-296\<close>
  "other_sql table_name col_name =
     ''\<newline>'' @
     ''                            SELECT COUNT(DISTINCT `'' @
     col_name @
     ''`) as unique_count\<newline>'' @
     ''                            FROM `'' @
     table_name @
     ''`\<newline>'' @
     ''                        ''"

definition present :: "tuple option \<Rightarrow> bool" where
  \<comment> \<open>the truth value of what \<^verbatim>\<open>fetchone\<close> gave: \<^verbatim>\<open>None\<close> and the empty tuple are false\<close>
  "present r = (case r of None \<Rightarrow> False | Some t \<Rightarrow> t \<noteq> [])"

definition type_name :: "pyval \<Rightarrow> string" where
  "type_name v =
     (case v of
        PNone \<Rightarrow> ''NoneType''
      | PInt n \<Rightarrow> ''int''
      | PFloat m e \<Rightarrow> ''float''
      | PDecimal m k \<Rightarrow> ''decimal.Decimal''
      | PStr s \<Rightarrow> ''str''
      | PList xs \<Rightarrow> ''list''
      | PDict kvs \<Rightarrow> ''dict'')"

definition lower_of :: "pyval \<Rightarrow> exn + string" where
  \<comment> \<open>\<^verbatim>\<open>v.lower()\<close>: only a \<^verbatim>\<open>str\<close> has the method\<close>
  "lower_of v =
     (case v of
        PStr s \<Rightarrow> Inr (lower s)
      | _ \<Rightarrow>
          Inl (Exn ''AttributeError''
                 ([CHR 0x27] @ type_name v @ [CHR 0x27] @ '' object has no attribute ''
                  @ [CHR 0x27] @ ''lower'' @ [CHR 0x27])))"

definition has_any :: "string \<Rightarrow> string list \<Rightarrow> bool" where
  \<comment> \<open>\<^verbatim>\<open>any(token in s for token in tokens)\<close>\<close>
  "has_any s tokens = list_ex (\<lambda>token. contains s token) tokens"

definition numeric_tokens :: "string list" where
  \<comment> \<open>line 259\<close>
  "numeric_tokens = [''int'', ''decimal'', ''float'', ''double'']"

definition text_tokens :: "string list" where
  \<comment> \<open>line 277\<close>
  "text_tokens = [''char'', ''text'', ''varchar'']"

datatype category = Numeric | Text | Other

definition classify :: "string \<Rightarrow> category" where
  \<comment> \<open>the tests of lines 259 and 277 and the \<^verbatim>\<open>else\<close> of line 291, in the order of the
      source; the argument is \<^verbatim>\<open>col_type\<close> as declared, lowered by each test\<close>
  "classify col_type =
     (if has_any (lower col_type) numeric_tokens then Numeric
      else if has_any (lower col_type) text_tokens then Text
      else Other)"

text \<open>
  An entry of \<^verbatim>\<open>stats\<close>. The source builds dicts and tells them apart by their keys
  (\<^verbatim>\<open>"avg" in s\<close>, \<^verbatim>\<open>"avg_length" in s\<close>); here each shape is a constructor:
  column, type, min, max, avg, std; column, type, unique_values, avg_length;
  column, type, unique_values.
\<close>

datatype column_stat =
    NumericStat pyval pyval pyval pyval pyval pyval
  | TextStat pyval pyval pyval pyval
  | OtherStat pyval pyval pyval

definition rounded :: "pylib \<Rightarrow> pyval \<Rightarrow> exn + pyval" where
  \<comment> \<open>lines 274, 275, 289: \<^verbatim>\<open>round(float(v), 2) if v else None\<close>\<close>
  "rounded L v = (if truthy v then round_float2 L v else Inr PNone)"

definition numeric_stat :: "pylib \<Rightarrow> pyval \<Rightarrow> pyval \<Rightarrow> tuple option \<Rightarrow> exn + column_stat" where
  \<comment> \<open>lines 269-276\<close>
  "numeric_stat L col_name col_type num_stats =
     bind_result (item_opt num_stats 0) (\<lambda>min_val.
     bind_result (item_opt num_stats 1) (\<lambda>max_val.
     bind_result (item_opt num_stats 2) (\<lambda>avg_val.
     bind_result (rounded L avg_val) (\<lambda>avg.
     bind_result (item_opt num_stats 3) (\<lambda>std_val.
     bind_result (rounded L std_val) (\<lambda>std.
       Inr (NumericStat col_name col_type min_val max_val avg std)))))))"

definition text_stat :: "pylib \<Rightarrow> pyval \<Rightarrow> pyval \<Rightarrow> tuple option \<Rightarrow> exn + column_stat" where
  \<comment> \<open>lines 285-290\<close>
  "text_stat L col_name col_type text_stats =
     bind_result (item_opt text_stats 0) (\<lambda>unique_count.
     bind_result (item_opt text_stats 1) (\<lambda>avg_length.
     bind_result (rounded L avg_length) (\<lambda>avg.
       Inr (TextStat col_name col_type unique_count avg))))"

definition other_stat :: "pyval \<Rightarrow> pyval \<Rightarrow> tuple option \<Rightarrow> exn + column_stat" where
  \<comment> \<open>lines 298-302\<close>
  "other_stat col_name col_type other_stats =
     bind_result (item_opt other_stats 0) (\<lambda>unique_count.
       Inr (OtherStat col_name col_type unique_count))"

definition column_sql :: "pylib \<Rightarrow> string \<Rightarrow> pyval \<Rightarrow> string \<Rightarrow> string" where
  \<comment> \<open>the statement of lines 260, 278 or 293 for a column whose declared type is given\<close>
  "column_sql L table_name col_name col_type =
     (case classify col_type of
        Numeric \<Rightarrow> numeric_sql table_name (py_str L col_name)
      | Text \<Rightarrow> text_sql table_name (py_str L col_name)
      | Other \<Rightarrow> other_sql table_name (py_str L col_name))"

definition column_statistic ::
    "pylib \<Rightarrow> env \<Rightarrow> string \<Rightarrow> tuple \<Rightarrow> column_stat list \<Rightarrow> (column_stat list) action" where
  \<comment> \<open>lines 255-302, the body of the loop over the columns; the variable of the loop
      is \<^verbatim>\<open>stats\<close>\<close>
  "column_statistic L E table_name col stats =
     and_then (lift (item col 0)) (\<lambda>col_name.
     and_then (lift (item col 1)) (\<lambda>col_type.
     and_then (lift (lower_of col_type)) (\<lambda>lowered.
       if has_any lowered numeric_tokens then
         and_then (execute E (Query (numeric_sql table_name (py_str L col_name)))) (\<lambda>rows.
           lift (bind_result (numeric_stat L col_name col_type (fetchone rows)) (\<lambda>s.
                   Inr (stats @ [s]))))
       else if has_any lowered text_tokens then
         and_then (execute E (Query (text_sql table_name (py_str L col_name)))) (\<lambda>rows.
           lift (bind_result (text_stat L col_name col_type (fetchone rows)) (\<lambda>s.
                   Inr (stats @ [s]))))
       else
         and_then (execute E (Query (other_sql table_name (py_str L col_name)))) (\<lambda>rows.
           lift (bind_result (other_stat col_name col_type (fetchone rows)) (\<lambda>s.
                   Inr (stats @ [s])))))))"

definition is_numeric_stat :: "column_stat \<Rightarrow> bool" where
  \<comment> \<open>line 309: \<^verbatim>\<open>"avg" in s\<close>\<close>
  "is_numeric_stat s = (case s of NumericStat c t mn mx a sd \<Rightarrow> True | _ \<Rightarrow> False)"

definition is_text_stat :: "column_stat \<Rightarrow> bool" where
  \<comment> \<open>line 319: \<^verbatim>\<open>"avg_length" in s\<close>\<close>
  "is_text_stat s = (case s of TextStat c t u a \<Rightarrow> True | _ \<Rightarrow> False)"

definition stat_line :: "pylib \<Rightarrow> column_stat \<Rightarrow> string" where
  \<comment> \<open>lines 315, 325, 335\<close>
  "stat_line L s =
     (case s of
        NumericStat c t mn mx a sd \<Rightarrow>
          ''| '' @ py_str L c @ '' | '' @ py_str L t @ '' | '' @ py_str L mn @ '' | ''
          @ py_str L mx @ '' | '' @ py_str L a @ '' | '' @ py_str L sd @ '' |\<newline>''
      | TextStat c t u a \<Rightarrow>
          ''| '' @ py_str L c @ '' | '' @ py_str L t @ '' | '' @ py_str L u @ '' | ''
          @ py_str L a @ '' |\<newline>''
      | OtherStat c t u \<Rightarrow>
          ''| '' @ py_str L c @ '' | '' @ py_str L t @ '' | '' @ py_str L u @ '' |\<newline>'')"

definition numeric_heading :: string where
  \<comment> \<open>lines 311-313\<close>
  "numeric_heading =
     ''## '' @ zh_numeric_columns @ ''\<newline>\<newline>''
     @ ''| '' @ zh_column_name @ '' | '' @ zh_type @ '' | '' @ zh_minimum @ '' | '' @ zh_maximum
     @ '' | '' @ zh_mean @ '' | '' @ zh_std_dev @ '' |\<newline>''
     @ ''| ---- | ---- | ------ | ------ | ------ | ------ |\<newline>''"

definition text_heading :: string where
  \<comment> \<open>lines 321-323\<close>
  "text_heading =
     ''## '' @ zh_text_columns @ ''\<newline>\<newline>''
     @ ''| '' @ zh_column_name @ '' | '' @ zh_type @ '' | '' @ zh_unique_count @ '' | ''
     @ zh_mean_length @ '' |\<newline>''
     @ ''| ---- | ---- | ---------- | -------- |\<newline>''"

definition other_heading :: string where
  \<comment> \<open>lines 331-333\<close>
  "other_heading =
     ''## '' @ zh_other_columns @ ''\<newline>\<newline>''
     @ ''| '' @ zh_column_name @ '' | '' @ zh_type @ '' | '' @ zh_unique_count @ '' |\<newline>''
     @ ''| ---- | ---- | ---------- |\<newline>''"

definition stats_report :: "pylib \<Rightarrow> string \<Rightarrow> tuple option \<Rightarrow> column_stat list \<Rightarrow> exn + string" where
  \<comment> \<open>lines 305-337\<close>
  "stats_report L table_name count stats =
     bind_result (item_opt count 0) (\<lambda>total.
       let result = ''# '' @ zh_table @ '' '' @ [CHR 0x27] @ table_name @ [CHR 0x27] @ '' ''
                    @ zh_statistics @ ''\<newline>\<newline>'';
           result = result @ zh_total_rows @ '': '' @ py_str L total @ ''\<newline>\<newline>'';
           num_cols = filter is_numeric_stat stats;
           result =
             (if num_cols \<noteq> [] then
                foldl (\<lambda>result col. result @ stat_line L col) (result @ numeric_heading) num_cols
                @ ''\<newline>''
              else result);
           text_cols = filter is_text_stat stats;
           result =
             (if text_cols \<noteq> [] then
                foldl (\<lambda>result col. result @ stat_line L col) (result @ text_heading) text_cols
                @ ''\<newline>''
              else result);
           other_cols = filter (\<lambda>s. \<not> is_numeric_stat s \<and> \<not> is_text_stat s) stats;
           result =
             (if other_cols \<noteq> [] then
                foldl (\<lambda>result col. result @ stat_line L col) (result @ other_heading) other_cols
              else result)
       in Inr result)"

definition not_found_message :: "string \<Rightarrow> string" where
  \<comment> \<open>line 242\<close>
  "not_found_message table_name =
     zh_error @ '': '' @ zh_table @ '' '' @ [CHR 0x27] @ table_name @ [CHR 0x27] @ '' '' @ zh_not_exist"

definition stats_error :: "exn \<Rightarrow> string" where
  \<comment> \<open>line 339\<close>
  "stats_error e = zh_stats_error @ '': '' @ exn_text e"

definition statistics_block :: "pylib \<Rightarrow> env \<Rightarrow> string \<Rightarrow> string action" where
  \<comment> \<open>lines 237-336, the suite of the \<^verbatim>\<open>try\<close>: the result is \<open>Inl\<close> when an exception
      leaves it.\<close>
  "statistics_block L E table_name =
     with_connection E
       (and_then (execute E (exists_request table_name)) (\<lambda>rows.
          if \<not> present (fetchone rows) then succeed (not_found_message table_name)
          else
            and_then (execute E (Query (count_sql table_name))) (\<lambda>rows.
              let count = fetchone rows in
            and_then (execute E (Query (describe_sql table_name))) (\<lambda>rows.
              let columns = tuples rows in
            and_then (for_each (column_statistic L E table_name) columns []) (\<lambda>stats.
              lift (stats_report L table_name count stats))))))"

definition table_statistics :: "pylib \<Rightarrow> env \<Rightarrow> string \<Rightarrow> string action" where
  \<comment> \<open>lines 228-339. The result is \<open>Inl\<close> when an exception leaves the function.\<close>
  "table_statistics L E table_name =
     (case statistics_block L E table_name of
        (Inl e, t) \<Rightarrow> (Inr (stats_error e), t)
      | (Inr s, t) \<Rightarrow> (Inr s, t))"


section \<open>What the operations are said to build\<close>

subsection \<open>The rendered table, line by line\<close>

text \<open>
  What the table is said to be, to compare with what the loops of \<open>render_results\<close>
  build: a text with a backslash put before each of its bars, a line of cells, the cell
  of a row under a column (empty when the row has no such key or the cell has no text),
  the title of line 220 and the table of a result set.
\<close>

definition escaped :: "string \<Rightarrow> string" where
  "escaped s = concat (map (\<lambda>c. if c = CHR ''|'' then [CHR 0x5C, CHR ''|''] else [c]) s)"

definition table_line :: "string list \<Rightarrow> string" where
  "table_line cells = ''| '' @ join '' | '' cells @ '' |\<newline>''"

definition cell_of :: "pylib \<Rightarrow> row \<Rightarrow> string \<Rightarrow> string" where
  "cell_of L row col =
     (case map_of row col of
        None \<Rightarrow> []
      | Some v \<Rightarrow> (case format_cell L v of Inl e \<Rightarrow> [] | Inr s \<Rightarrow> s))"

definition renders :: "pylib \<Rightarrow> row \<Rightarrow> string \<Rightarrow> bool" where
  \<comment> \<open>the row has the key and its cell has a text\<close>
  "renders L row col \<longleftrightarrow> (\<exists>v s. map_of row col = Some v \<and> format_cell L v = Inr s)"

definition table_text :: "pylib \<Rightarrow> string list \<Rightarrow> row list \<Rightarrow> string" where
  "table_text L columns results =
     table_line columns @ table_line (map (\<lambda>c. ''---'') columns)
     @ concat (map (\<lambda>row. table_line (map (cell_of L row) columns)) results)"

definition result_title :: "nat \<Rightarrow> string" where
  "result_title n =
     [CHR 0xE6, CHR 0x9F, CHR 0xA5, CHR 0xE8, CHR 0xAF, CHR 0xA2, CHR 0xE7, CHR 0xBB,
      CHR 0x93, CHR 0xE6, CHR 0x9E, CHR 0x9C] @
     '' ('' @ str_int (int n) @
     '' '' @
     [CHR 0xE8, CHR 0xA1, CHR 0x8C] @
     ''):\<newline>\<newline>''"

subsection \<open>The statements of \<open>table_statistics\<close>\<close>

text \<open>
  The events of a run of \<open>table_statistics\<close> for a name, each statement as the text the
  engine receives: the pool's events, the existence check with the name as its pattern,
  the row count, the description, and the aggregates of a column \<open>c\<close>, each of a table
  written as the caller's string between backticks.
\<close>

definition about_table :: "string \<Rightarrow> event \<Rightarrow> bool" where
  "about_table name ev \<longleftrightarrow>
     ev = Acquire \<or> ev = Release \<or>
     ev = Execute (QueryArgs ''SHOW TABLES LIKE %s'' [PStr name]) \<or>
     ev = Execute (Query (''SELECT COUNT(*) as count FROM `'' @ name @ ''`'')) \<or>
     ev = Execute (Query (''DESCRIBE `'' @ name @ ''`'')) \<or>
     (\<exists>c.
        ev = Execute (Query
           (''\<newline>'' @ ''                            SELECT \<newline>'' @
            ''                                MIN(`'' @ c @ ''`) as min_val,\<newline>'' @
            ''                                MAX(`'' @ c @ ''`) as max_val,\<newline>'' @
            ''                                AVG(`'' @ c @ ''`) as avg_val,\<newline>'' @
            ''                                STD(`'' @ c @ ''`) as std_val\<newline>'' @
            ''                            FROM `'' @ name @ ''`\<newline>'' @
            ''                        '')) \<or>
        ev = Execute (Query
           (''\<newline>'' @ ''                            SELECT \<newline>'' @
            ''                                COUNT(DISTINCT `'' @ c @
            ''`) as unique_count,\<newline>'' @ ''                                AVG(LENGTH(`'' @
            c @ ''`)) as avg_length\<newline>'' @ ''                            FROM `'' @ name @
            ''`\<newline>'' @ ''                        '')) \<or>
        ev = Execute (Query
           (''\<newline>'' @ ''                            SELECT COUNT(DISTINCT `'' @ c @
            ''`) as unique_count\<newline>'' @ ''                            FROM `'' @ name @
            ''`\<newline>'' @ ''                        '')))"


subsection \<open>The listing of foreign keys\<close>

text \<open>
  What the listing is said to be, to compare with what the loops of \<open>get_relationships\<close>
  build: the statement the engine receives for a table \<open>t\<close> of the database \<open>db\<close>, the
  foreign keys it reports, the line of one of them, the heading and the section of a
  table (nothing when it has no key), and what it takes for the engine to answer for a
  table: a result set whose rows have the five columns selected.
\<close>

definition key_statement :: "string \<Rightarrow> string \<Rightarrow> string" where
  "key_statement db t =
     ''\<newline>'' @ ''                    SELECT \<newline>'' @
     ''                        TABLE_NAME as table_name,\<newline>'' @
     ''                        COLUMN_NAME as column_name,\<newline>'' @
     ''                        CONSTRAINT_NAME as constraint_name,\<newline>'' @
     ''                        REFERENCED_TABLE_NAME as referenced_table_name,\<newline>'' @
     ''                        REFERENCED_COLUMN_NAME as referenced_column_name\<newline>'' @
     ''                    FROM\<newline>'' @
     ''                        INFORMATION_SCHEMA.KEY_COLUMN_USAGE\<newline>'' @
     ''                    WHERE\<newline>'' @
     ''                        REFERENCED_TABLE_SCHEMA = '' @ [CHR 0x27] @ db @
     [CHR 0x27] @ '' AND\<newline>'' @ ''                        TABLE_NAME = '' @
     [CHR 0x27] @ t @ [CHR 0x27] @ ''\<newline>'' @ ''                ''"

definition foreign_keys :: "env \<Rightarrow> string \<Rightarrow> string \<Rightarrow> tuple list" where
  "foreign_keys E db t =
     (case answer E (Query (key_statement db t)) of
        Inl e \<Rightarrow> []
      | Inr rows \<Rightarrow> tuples rows)"

definition relation_text :: "pylib \<Rightarrow> tuple \<Rightarrow> string" where
  "relation_text L rel =
     ''| '' @ py_str L (rel ! 1) @ '' | '' @ py_str L (rel ! 2) @ '' | '' @ py_str L (rel ! 3)
     @ '' | '' @ py_str L (rel ! 4) @ '' |\<newline>''"

definition section_heading :: "string \<Rightarrow> string" where
  "section_heading t =
     ''## '' @
     [CHR 0xE8, CHR 0xA1, CHR 0xA8] @
     '' `'' @ t @
     ''` '' @
     [CHR 0xE7, CHR 0x9A, CHR 0x84, CHR 0xE5, CHR 0xA4, CHR 0x96, CHR 0xE9, CHR 0x94,
      CHR 0xAE, CHR 0xE5, CHR 0x85, CHR 0xB3, CHR 0xE7, CHR 0xB3, CHR 0xBB] @
     ''\<newline>\<newline>| '' @
     [CHR 0xE5, CHR 0x88, CHR 0x97, CHR 0xE5, CHR 0x90, CHR 0x8D] @
     '' | '' @
     [CHR 0xE7, CHR 0xBA, CHR 0xA6, CHR 0xE6, CHR 0x9D, CHR 0x9F, CHR 0xE5, CHR 0x90,
      CHR 0x8D] @
     '' | '' @
     [CHR 0xE5, CHR 0xBC, CHR 0x95, CHR 0xE7, CHR 0x94, CHR 0xA8, CHR 0xE8, CHR 0xA1,
      CHR 0xA8] @
     '' | '' @
     [CHR 0xE5, CHR 0xBC, CHR 0x95, CHR 0xE7, CHR 0x94, CHR 0xA8, CHR 0xE5, CHR 0x88,
      CHR 0x97] @
     '' |\<newline>| ---- | ------ | ------ | ------ |\<newline>''"

definition relations_section :: "pylib \<Rightarrow> env \<Rightarrow> string \<Rightarrow> string \<Rightarrow> string" where
  "relations_section L E db t =
     (if foreign_keys E db t = [] then []
      else section_heading t @ concat (map (relation_text L) (foreign_keys E db t)) @ ''\<newline>'')"

definition answers_foreign_keys :: "env \<Rightarrow> string \<Rightarrow> string \<Rightarrow> bool" where
  "answers_foreign_keys E db t \<longleftrightarrow>
     (\<exists>rows. answer E (Query (key_statement db t)) = Inr rows \<and>
        list_all (\<lambda>rel. 5 \<le> length rel) (tuples rows))"

section \<open>Sample inputs\<close>

text \<open>
  A library and a database to run the operations on: the library gives fixed texts, the
  empty database answers every statement with no rows.
\<close>

definition sample_lib :: pylib where
  "sample_lib =
     \<lparr>py_repr = (\<lambda>v. ''<value>''),
      json_dumps = (\<lambda>v. Inr ''[1, 2]''),
      round_float2 = (\<lambda>v. Inr v)\<rparr>"

definition empty_env :: env where
  "empty_env = \<lparr>db_name = Some ''shop'', acquire = None, answer = (\<lambda>q. Inr [])\<rparr>"

text \<open>A result set of two rows, and a database that answers every statement with it.\<close>

definition notes_rows :: "row list" where
  "notes_rows =
     [[(''id'', PInt 7), (''note'', PStr ''a|b'')],
      [(''id'', PNone), (''note'', PList [PInt 1, PInt 2])]]"

definition notes_env :: env where
  "notes_env = \<lparr>db_name = Some ''shop'', acquire = None, answer = (\<lambda>q. Inr notes_rows)\<rparr>"

text \<open>
  A result set with a list of decimals in a cell, and a library whose \<^verbatim>\<open>json.dumps\<close>
  refuses it, as Python's does: a \<^verbatim>\<open>Decimal\<close> is not serializable.
\<close>

definition not_serializable :: exn where
  "not_serializable = Exn ''TypeError'' ''Object of type Decimal is not JSON serializable''"

definition strict_lib :: pylib where
  "strict_lib =
     \<lparr>py_repr = (\<lambda>v. ''<value>''),
      json_dumps = (\<lambda>v. if v = PList [PDecimal 15 1] then Inl not_serializable else Inr ''[1, 2]''),
      round_float2 = (\<lambda>v. Inr v)\<rparr>"

definition basket_rows :: "row list" where
  "basket_rows = [[(''id'', PInt 1), (''prices'', PList [PDecimal 15 1])]]"

definition basket_env :: env where
  "basket_env = \<lparr>db_name = Some ''shop'', acquire = None, answer = (\<lambda>q. Inr basket_rows)\<rparr>"

subsection \<open>A database of named tables\<close>

text \<open>
  SQL's \<^verbatim>\<open>LIKE\<close> as the engine documents it: \<^verbatim>\<open>%\<close> stands for any run of characters,
  \<^verbatim>\<open>_\<close> for any one character, a backslash makes the character after it stand for
  itself. The first argument is the pattern. Letter case is compared as it is.
\<close>

fun like_match :: "string \<Rightarrow> string \<Rightarrow> bool" where
  "like_match [] [] \<longleftrightarrow> True"
| "like_match [] (c # s) \<longleftrightarrow> False"
| "like_match (p # ps) [] \<longleftrightarrow> p = CHR ''%'' \<and> like_match ps []"
| "like_match (p # ps) (c # s) \<longleftrightarrow>
     (if p = CHR ''%'' then like_match ps (c # s) \<or> like_match (p # ps) s
      else if p = CHR ''_'' then like_match ps s
      else if p = CHR 0x5C then
        (case ps of [] \<Rightarrow> c = p \<and> s = [] | q # qs \<Rightarrow> c = q \<and> like_match qs s)
      else c = p \<and> like_match ps s)"

text \<open>
  A database \<^verbatim>\<open>shop\<close> with the tables named: every table has the one column \<^verbatim>\<open>id\<close> of
  type \<^verbatim>\<open>int\<close> and two rows, no table has a foreign key, and the aggregates of
  \<^verbatim>\<open>id\<close> are the row given. It answers the statements the gateway sends about its tables,
  \<^verbatim>\<open>SHOW TABLES LIKE\<close> by pattern, and rejects everything else as an unknown table.
\<close>

definition no_such_table :: exn where
  "no_such_table = Exn ''ProgrammingError'' ''(1146, no such table)''"

definition name_row :: "string \<Rightarrow> row" where
  "name_row t = [(''Tables_in_shop'', PStr t)]"

definition id_column :: row where
  "id_column =
     [(''Field'', PStr ''id''), (''Type'', PStr ''int''), (''Null'', PStr ''NO''),
      (''Key'', PStr ''PRI''), (''Default'', PNone), (''Extra'', PStr ''auto_increment'')]"

definition catalog_env :: "string list \<Rightarrow> row \<Rightarrow> env" where
  "catalog_env tables aggregates =
     \<lparr>db_name = Some ''shop'',
      acquire = None,
      answer = (\<lambda>q.
        case q of
          QueryArgs s args \<Rightarrow>
            (case args of
               [PStr p] \<Rightarrow>
                 if s = ''SHOW TABLES LIKE %s''
                 then Inr (map name_row (filter (like_match p) tables))
                 else Inl (Exn ''ProgrammingError'' ''(1064, syntax error)'')
             | _ \<Rightarrow> Inl (Exn ''ProgrammingError'' ''(1064, syntax error)''))
        | Query s \<Rightarrow>
            if s = ''SHOW TABLES'' then Inr (map name_row tables)
            else if s \<in> set (map count_sql tables) then Inr [[(''count'', PInt 2)]]
            else if s \<in> set (map describe_sql tables) then Inr [id_column]
            else if s \<in> set (map (\<lambda>t. numeric_sql t ''id'') tables) then Inr [aggregates]
            else if s \<in> set (map show_create_sql tables)
              then Inr [[(''Table'', PStr ''t''), (''Create Table'', PStr ''CREATE TABLE ...'')]]
            else if s \<in> set (map (foreign_key_sql ''shop'') tables) then Inr []
            else Inl no_such_table)\<rparr>"

text \<open>The aggregates of a column whose two values are both 0: \<^verbatim>\<open>AVG\<close> gives the decimal
  \<^verbatim>\<open>0.0000\<close>, \<^verbatim>\<open>STD\<close> the float \<^verbatim>\<open>0.0\<close>.\<close>

definition zero_aggregates :: row where
  "zero_aggregates =
     [(''min_val'', PInt 0), (''max_val'', PInt 0),
      (''avg_val'', PDecimal 0 4), (''std_val'', PFloat 0 0)]"

text \<open>
  The table \<^verbatim>\<open>users\<close> with the columns \<^verbatim>\<open>id\<close> and \<^verbatim>\<open>email\<close>, in a database that
  refuses every statement but the existence check, the row count, the description and
  the aggregates of \<^verbatim>\<open>id\<close>.
\<close>

definition email_column :: row where
  "email_column =
     [(''Field'', PStr ''email''), (''Type'', PStr ''varchar(255)''), (''Null'', PStr ''YES''),
      (''Key'', PStr ''''), (''Default'', PNone), (''Extra'', PStr '''')]"

definition denied :: exn where
  "denied = Exn ''OperationalError'' ''(1143, SELECT command denied)''"

definition denied_env :: env where
  "denied_env =
     \<lparr>db_name = Some ''shop'',
      acquire = None,
      answer = (\<lambda>q.
        if q = exists_request ''users'' then Inr [name_row ''users'']
        else if q = Query (count_sql ''users'') then Inr [[(''count'', PInt 2)]]
        else if q = Query (describe_sql ''users'') then Inr [id_column, email_column]
        else if q = Query (numeric_sql ''users'' ''id'') then Inr [zero_aggregates]
        else Inl denied)\<rparr>"

text \<open>
  A database with the tables \<^verbatim>\<open>users\<close> and \<^verbatim>\<open>orders\<close>, where \<^verbatim>\<open>orders.user_id\<close> refers to
  \<^verbatim>\<open>users.id\<close>.
\<close>

definition order_key :: row where
  "order_key =
     [(''table_name'', PStr ''orders''), (''column_name'', PStr ''user_id''),
      (''constraint_name'', PStr ''orders_user''), (''referenced_table_name'', PStr ''users''),
      (''referenced_column_name'', PStr ''id'')]"

definition linked_env :: env where
  "linked_env =
     \<lparr>db_name = Some ''shop'',
      acquire = None,
      answer = (\<lambda>q.
        if q = Query ''SHOW TABLES'' then Inr [name_row ''users'', name_row ''orders'']
        else if q = Query (key_statement ''shop'' ''orders'') then Inr [order_key]
        else if q = Query (key_statement ''shop'' ''users'') then Inr []
        else Inl no_such_table)\<rparr>"


text \<open>
  A database whose one listed table is \<^verbatim>\<open>users\<close> and whose connection also holds a
  temporary table \<^verbatim>\<open>user_\<close>, with the column \<^verbatim>\<open>id\<close> and two rows: \<^verbatim>\<open>SHOW TABLES\<close> does
  not list a temporary table, statements that name it are answered.
\<close>

definition temporary_env :: env where
  "temporary_env =
     \<lparr>db_name = Some ''shop'',
      acquire = None,
      answer = (\<lambda>q.
        case q of
          QueryArgs s args \<Rightarrow>
            (case args of
               [PStr p] \<Rightarrow>
                 if s = ''SHOW TABLES LIKE %s''
                 then Inr (map name_row (filter (like_match p) [''users'']))
                 else Inl (Exn ''ProgrammingError'' ''(1064, syntax error)'')
             | _ \<Rightarrow> Inl (Exn ''ProgrammingError'' ''(1064, syntax error)''))
        | Query s \<Rightarrow>
            if s = ''SELECT COUNT(*) as count FROM `user_`'' then Inr [[(''count'', PInt 2)]]
            else if s = ''DESCRIBE `user_`'' then Inr [id_column]
            else if s =
              ''\<newline>'' @ ''                            SELECT \<newline>'' @
          ''                                MIN(`'' @ ''id'' @ ''`) as min_val,\<newline>'' @
          ''                                MAX(`'' @ ''id'' @ ''`) as max_val,\<newline>'' @
          ''                                AVG(`'' @ ''id'' @ ''`) as avg_val,\<newline>'' @
          ''                                STD(`'' @ ''id'' @ ''`) as std_val\<newline>'' @
          ''                            FROM `'' @ ''user_'' @ ''`\<newline>'' @
          ''                        ''
            then Inr [zero_aggregates]
            else Inl no_such_table)\<rparr>"

section \<open>The read-only guard\<close>

text \<open>
  C1. For every input whose trimmed text does not begin, in any letter case, with
  \<^verbatim>\<open>SELECT\<close>, \<open>query_data\<close> returns the rejection message and its trace is empty: no
  connection is taken from the pool and no statement reaches the engine.
\<close>

theorem query_data_rejects_non_select:
  assumes "\<not> startswith (lower (strip sql)) ''select''"
  shows "query_data L E sql limit = (Inr reject_message, [])"
  using assms by (simp add: query_data_def query_block_def succeed_def)

theorem query_data_rejects_non_select_witness:
  "\<not> startswith (lower (strip ''  DROP TABLE users'')) ''select'' \<and>
   query_data sample_lib empty_env ''  DROP TABLE users'' (Some 100) = (Inr reject_message, [])"
proof -
  have h: "\<not> startswith (lower (strip ''  DROP TABLE users'')) ''select''"
    by (simp add: startswith_def lower_def lower_char_def strip_def isspace_def isspace2_def isspace3_def)
  show ?thesis using h query_data_rejects_non_select [OF h] by simp
qed

section \<open>The appended bound\<close>

lemma query_data_trace:
  assumes "startswith (lower (strip sql)) ''select''" and "acquire E = None"
  shows "snd (query_data L E sql limit) =
           [Acquire, Execute (Query (add_limit (strip sql) limit)), Release]"
  using assms
  by (simp add: query_data_def query_block_def with_connection_def and_then_def execute_def lift_def Let_def
      split: option.splits sum.splits prod.splits)

text \<open>
  C2. For a statement that passes the guard and whose lowered text does not contain
  \<^verbatim>\<open>limit\<close>, the statement sent to the engine is the trimmed input followed by one
  \<^verbatim>\<open> LIMIT n\<close>, for every bound \<open>n\<close> the body of the function runs with. Line 169
  names 100 as the default of \<^verbatim>\<open>limit\<close>; the body does not tell a default from a bound
  the caller passes, and 100 is the instance \<open>n = 100\<close>. When the lowered text contains
  \<^verbatim>\<open>limit\<close>, or the caller passes \<^verbatim>\<open>None\<close>, the trimmed input is sent as it is. In each
  case exactly one statement is sent.
\<close>

theorem query_data_appends_limit:
  assumes "startswith (lower (strip sql)) ''select''" and "acquire E = None"
  shows "(\<not> contains (lower (strip sql)) ''limit'' \<longrightarrow>
            snd (query_data L E sql (Some n)) =
              [Acquire, Execute (Query (strip sql @ '' LIMIT '' @ str_int n)), Release]) \<and>
         (contains (lower (strip sql)) ''limit'' \<longrightarrow>
            snd (query_data L E sql limit) = [Acquire, Execute (Query (strip sql)), Release]) \<and>
         snd (query_data L E sql None) = [Acquire, Execute (Query (strip sql)), Release]"
  using assms
  by (simp add: query_data_trace add_limit_def)

theorem query_data_appends_limit_witness:
  "startswith (lower (strip (''  SELECT a, b FROM t'' @ [CHR 0xE3, CHR 0x80, CHR 0x80]))) ''select'' \<and>
   acquire empty_env = None \<and>
   \<not> contains (lower (strip (''  SELECT a, b FROM t'' @ [CHR 0xE3, CHR 0x80, CHR 0x80]))) ''limit'' \<and>
   snd (query_data sample_lib empty_env
          (''  SELECT a, b FROM t'' @ [CHR 0xE3, CHR 0x80, CHR 0x80]) (Some 100)) =
     [Acquire, Execute (Query ''SELECT a, b FROM t LIMIT 100''), Release] \<and>
   snd (query_data sample_lib empty_env
          (''  SELECT a, b FROM t'' @ [CHR 0xE3, CHR 0x80, CHR 0x80]) None) =
     [Acquire, Execute (Query ''SELECT a, b FROM t''), Release] \<and>
   startswith (lower (strip ([CHR 0xE3, CHR 0x80, CHR 0x80] @ ''Select 1''))) ''select'' \<and>
   snd (query_data sample_lib empty_env ([CHR 0xE3, CHR 0x80, CHR 0x80] @ ''Select 1'') (Some 7)) =
     [Acquire, Execute (Query ''Select 1 LIMIT 7''), Release] \<and>
   startswith (lower (strip ''select 1 Limit 5 '')) ''select'' \<and>
   contains (lower (strip ''select 1 Limit 5 '')) ''limit'' \<and>
   snd (query_data sample_lib empty_env ''select 1 Limit 5 '' (Some 7)) =
     [Acquire, Execute (Query ''select 1 Limit 5''), Release]"
proof -
  let ?a = "''  SELECT a, b FROM t'' @ [CHR 0xE3, CHR 0x80, CHR 0x80]"
  let ?b = "[CHR 0xE3, CHR 0x80, CHR 0x80] @ ''Select 1''"
  let ?c = "''select 1 Limit 5 ''"
  have sa: "strip ?a = ''SELECT a, b FROM t''" and sb: "strip ?b = ''Select 1''"
    and sc: "strip ?c = ''select 1 Limit 5''"
    by (simp_all add: strip_def isspace_def isspace2_def isspace3_def)
  have la: "lower ''SELECT a, b FROM t'' = ''select a, b from t''"
    and lb: "lower ''Select 1'' = ''select 1''"
    and lc: "lower ''select 1 Limit 5'' = ''select 1 limit 5''"
    by (simp_all add: lower_def lower_char_def)
  have ga: "startswith (lower (strip ?a)) ''select''" and gb: "startswith (lower (strip ?b)) ''select''"
    and gc: "startswith (lower (strip ?c)) ''select''"
    by (simp_all only: sa sb sc la lb lc startswith_def, simp_all)
  have p: "acquire empty_env = None"
    by (simp add: empty_env_def)
  have na: "\<not> contains (lower (strip ?a)) ''limit''" and nb: "\<not> contains (lower (strip ?b)) ''limit''"
    and yc: "contains (lower (strip ?c)) ''limit''"
    by (simp_all only: sa sb sc la lb lc, simp_all)
  have d: "str_int 100 = ''100''" "str_int 7 = ''7''"
    by (simp_all add: str_int_def)
  have ra: "snd (query_data sample_lib empty_env ?a (Some 100)) =
              [Acquire, Execute (Query ''SELECT a, b FROM t LIMIT 100''), Release]"
    and rn: "snd (query_data sample_lib empty_env ?a None) =
              [Acquire, Execute (Query ''SELECT a, b FROM t''), Release]"
    using na query_data_appends_limit [OF ga p, of sample_lib 100 None]
    unfolding sa d by simp_all
  have rb: "snd (query_data sample_lib empty_env ?b (Some 7)) =
              [Acquire, Execute (Query ''Select 1 LIMIT 7''), Release]"
    using nb query_data_appends_limit [OF gb p, of sample_lib 7 None]
    unfolding sb d by simp
  have rc: "snd (query_data sample_lib empty_env ?c (Some 7)) =
              [Acquire, Execute (Query ''select 1 Limit 5''), Release]"
    using yc query_data_appends_limit [OF gc p, of sample_lib 7 "Some 7"]
    unfolding sc by simp
  show ?thesis
    using ga gb gc p na yc ra rn rb rc by simp
qed

section \<open>The rendered table\<close>

lemma format_row_cells:
  "format_row L cols row acc = Inr out \<Longrightarrow>
     out = acc @ map (cell_of L row) cols \<and> (\<forall>col \<in> set cols. renders L row col)"
proof (induction cols arbitrary: acc)
  case Nil
  then show ?case by simp
next
  case (Cons col cols)
  from Cons.prems obtain v s where
    v: "map_of row col = Some v" and s: "format_cell L v = Inr s" and
    r: "format_row L cols row (acc @ [s]) = Inr out"
    by (auto split: option.splits sum.splits)
  from v s have "cell_of L row col = s" and "renders L row col"
    by (simp_all add: cell_of_def renders_def)
  with Cons.IH [OF r] show ?case
    by simp
qed

lemma format_rows_lines:
  "format_rows L cols rows table = Inr out \<Longrightarrow>
     out = table @ concat (map (\<lambda>row. table_line (map (cell_of L row) cols)) rows) \<and>
     (\<forall>row \<in> set rows. \<forall>col \<in> set cols. renders L row col)"
proof (induction rows arbitrary: table)
  case Nil
  then show ?case by simp
next
  case (Cons row rows)
  from Cons.prems obtain cells where
    c: "format_row L cols row [] = Inr cells" and
    r: "format_rows L cols rows (table @ ''| '' @ join '' | '' cells @ '' |\<newline>'') = Inr out"
    by (auto split: sum.splits)
  from format_row_cells [OF c] have
    cells: "cells = map (cell_of L row) cols" and ok: "\<forall>col \<in> set cols. renders L row col"
    by simp_all
  from Cons.IH [OF r] cells ok show ?case
    by (simp add: table_line_def)
qed

lemma render_results_text:
  assumes "render_results L (first # rest) = Inr out"
  shows "out = result_title (length (first # rest)) @ table_text L (map fst first) (first # rest) \<and>
         (\<forall>row \<in> set (first # rest). \<forall>col \<in> set (map fst first). renders L row col)"
proof -
  let ?cols = "map fst first"
  from assms obtain table where
    t: "format_rows L ?cols (first # rest) (table_line ?cols @ table_line (map (\<lambda>c. ''---'') ?cols)) = Inr table"
    and x: "out = result_title (length (first # rest)) @ table"
    by (auto simp: render_results_def Let_def table_line_def result_title_def
        zh_query_result_def zh_rows_def split: sum.splits)
  from format_rows_lines [OF t] x show ?thesis
    by (simp add: table_text_def)
qed

lemma escaped_eq: "escape_pipe s = escaped s"
  by (simp add: escape_pipe_def replace_def escaped_def)

lemma escaped_snoc:
  "escaped (s @ [c]) = escaped s @ (if c = CHR ''|'' then [CHR 0x5C, CHR ''|''] else [c])"
  by (simp add: escaped_def)

lemma bars_escaped:
  "i < length (escaped s) \<Longrightarrow> escaped s ! i = CHR ''|'' \<Longrightarrow>
     0 < i \<and> escaped s ! (i - 1) = CHR 0x5C"
proof (induction s arbitrary: i rule: rev_induct)
  case Nil
  then show ?case by (simp add: escaped_def)
next
  case (snoc c s)
  show ?case
  proof (cases "i < length (escaped s)")
    case True
    with snoc.prems have "escaped s ! i = CHR ''|''"
      by (simp add: escaped_snoc nth_append)
    from snoc.IH [OF True this] True show ?thesis
      by (auto simp: escaped_snoc nth_append)
  next
    case False
    with snoc.prems show ?thesis
      by (auto simp: escaped_snoc nth_append less_Suc_eq split: if_splits)
  qed
qed

lemma format_cell_escaped: "format_cell L v = Inr s \<Longrightarrow> \<exists>t. s = escaped t"
  by (auto simp: format_cell_def escaped_eq split: sum.splits)

lemma query_data_result:
  assumes "startswith (lower (strip sql)) ''select''" and "acquire E = None"
    and "answer E (Query (add_limit (strip sql) limit)) = Inr results"
  shows "fst (query_data L E sql limit) =
           Inr (case render_results L results of Inl e \<Rightarrow> query_error e | Inr out \<Rightarrow> out)"
  using assms
  by (simp add: query_data_def query_block_def with_connection_def and_then_def execute_def lift_def Let_def
      split: option.splits sum.splits prod.splits)

text \<open>
  C7. In the table \<open>query_data\<close> renders: a \<^verbatim>\<open>None\<close> cell is the text \<^verbatim>\<open>NULL\<close>; a list
  or a dict is the text \<^verbatim>\<open>json.dumps\<close> gives for it; any other value is its \<^verbatim>\<open>str\<close>
  (a \<^verbatim>\<open>str\<close> itself, an \<^verbatim>\<open>int\<close> in decimal digits); in each of the three a backslash is
  put before every bar, so that every bar of a cell is preceded by a backslash; a result
  set with no rows gives the fixed message of line 195 and no table; a result set with
  rows gives the title and the table whose lines hold these cells, column by column in
  the order of the first row's keys.
\<close>

theorem rendered_cells:
  "format_cell L PNone = Inr ''NULL'' \<and>
   format_cell L (PList xs) =
     (case json_dumps L (PList xs) of Inl x \<Rightarrow> Inl x | Inr j \<Rightarrow> Inr (escaped j)) \<and>
   format_cell L (PDict kvs) =
     (case json_dumps L (PDict kvs) of Inl x \<Rightarrow> Inl x | Inr j \<Rightarrow> Inr (escaped j)) \<and>
   format_cell L (PStr t) = Inr (escaped t) \<and>
   format_cell L (PInt n) = Inr (escaped (str_int n)) \<and>
   format_cell L (PFloat m e) = Inr (escaped (py_repr L (PFloat m e))) \<and>
   format_cell L (PDecimal d k) = Inr (escaped (py_repr L (PDecimal d k))) \<and>
   (format_cell L u = Inr s \<and> i < length s \<and> s ! i = CHR ''|'' \<longrightarrow>
      0 < i \<and> s ! (i - 1) = CHR 0x5C) \<and>
   render_results L [] =
     Inr [CHR 0xE6, CHR 0x9F, CHR 0xA5, CHR 0xE8, CHR 0xAF, CHR 0xA2, CHR 0xE6, CHR 0x89,
         CHR 0xA7, CHR 0xE8, CHR 0xA1, CHR 0x8C, CHR 0xE6, CHR 0x88, CHR 0x90, CHR 0xE5,
         CHR 0x8A, CHR 0x9F, CHR 0xEF, CHR 0xBC, CHR 0x8C, CHR 0xE4, CHR 0xBD, CHR 0x86,
         CHR 0xE6, CHR 0xB2, CHR 0xA1, CHR 0xE6, CHR 0x9C, CHR 0x89, CHR 0xE8, CHR 0xBF,
         CHR 0x94, CHR 0xE5, CHR 0x9B, CHR 0x9E, CHR 0xE6, CHR 0x95, CHR 0xB0, CHR 0xE6,
         CHR 0x8D, CHR 0xAE, CHR 0xE3, CHR 0x80, CHR 0x82] \<and>
   (render_results L (first # rest) = Inr out \<longrightarrow>
      out = result_title (length (first # rest)) @ table_text L (map fst first) (first # rest) \<and>
      (\<forall>row \<in> set (first # rest). \<forall>col \<in> set (map fst first). renders L row col)) \<and>
   (startswith (lower (strip sql)) ''select'' \<and> acquire E = None \<and>
    answer E (Query (add_limit (strip sql) limit)) = Inr results \<longrightarrow>
      fst (query_data L E sql limit) =
        Inr (case render_results L results of
               Inl (Exn cls msg) \<Rightarrow>
                 [CHR 0xE6, CHR 0x9F, CHR 0xA5, CHR 0xE8, CHR 0xAF, CHR 0xA2, CHR 0xE6,
                  CHR 0x89, CHR 0xA7, CHR 0xE8, CHR 0xA1, CHR 0x8C, CHR 0xE9, CHR 0x94,
                  CHR 0x99, CHR 0xE8, CHR 0xAF, CHR 0xAF] @
                 '': '' @ msg
             | Inr page \<Rightarrow> page))"
proof -
  have null: "format_cell L PNone = Inr ''NULL''"
    by (simp add: format_cell_def cell_text_def escape_pipe_def replace_def)
  have list: "format_cell L (PList xs) =
     (case json_dumps L (PList xs) of Inl x \<Rightarrow> Inl x | Inr j \<Rightarrow> Inr (escaped j))"
    and dict: "format_cell L (PDict kvs) =
     (case json_dumps L (PDict kvs) of Inl x \<Rightarrow> Inl x | Inr j \<Rightarrow> Inr (escaped j))"
    by (simp_all add: format_cell_def cell_text_def is_struct_def escaped_eq split: sum.splits)
  have other: "format_cell L (PStr t) = Inr (escaped t)"
    "format_cell L (PInt n) = Inr (escaped (str_int n))"
    "format_cell L (PFloat m e) = Inr (escaped (py_repr L (PFloat m e)))"
    "format_cell L (PDecimal d k) = Inr (escaped (py_repr L (PDecimal d k)))"
    by (simp_all add: format_cell_def cell_text_def is_struct_def escaped_eq)
  have bars: "format_cell L u = Inr s \<and> i < length s \<and> s ! i = CHR ''|'' \<longrightarrow>
      0 < i \<and> s ! (i - 1) = CHR 0x5C"
    using bars_escaped format_cell_escaped by blast
  have empty: "render_results L [] =
     Inr [CHR 0xE6, CHR 0x9F, CHR 0xA5, CHR 0xE8, CHR 0xAF, CHR 0xA2, CHR 0xE6, CHR 0x89,
         CHR 0xA7, CHR 0xE8, CHR 0xA1, CHR 0x8C, CHR 0xE6, CHR 0x88, CHR 0x90, CHR 0xE5,
         CHR 0x8A, CHR 0x9F, CHR 0xEF, CHR 0xBC, CHR 0x8C, CHR 0xE4, CHR 0xBD, CHR 0x86,
         CHR 0xE6, CHR 0xB2, CHR 0xA1, CHR 0xE6, CHR 0x9C, CHR 0x89, CHR 0xE8, CHR 0xBF,
         CHR 0x94, CHR 0xE5, CHR 0x9B, CHR 0x9E, CHR 0xE6, CHR 0x95, CHR 0xB0, CHR 0xE6,
         CHR 0x8D, CHR 0xAE, CHR 0xE3, CHR 0x80, CHR 0x82]"
    by (simp add: render_results_def no_rows_message_def zh_no_data_returned_def)
  have rows: "render_results L (first # rest) = Inr out \<longrightarrow>
      out = result_title (length (first # rest)) @ table_text L (map fst first) (first # rest) \<and>
      (\<forall>row \<in> set (first # rest). \<forall>col \<in> set (map fst first). renders L row col)"
    using render_results_text by blast
  have query: "startswith (lower (strip sql)) ''select'' \<and> acquire E = None \<and>
    answer E (Query (add_limit (strip sql) limit)) = Inr results \<longrightarrow>
      fst (query_data L E sql limit) =
        Inr (case render_results L results of
               Inl (Exn cls msg) \<Rightarrow>
                 [CHR 0xE6, CHR 0x9F, CHR 0xA5, CHR 0xE8, CHR 0xAF, CHR 0xA2, CHR 0xE6,
                  CHR 0x89, CHR 0xA7, CHR 0xE8, CHR 0xA1, CHR 0x8C, CHR 0xE9, CHR 0x94,
                  CHR 0x99, CHR 0xE8, CHR 0xAF, CHR 0xAF] @
                 '': '' @ msg
             | Inr page \<Rightarrow> page)"
    by (auto simp: query_data_result query_error_def zh_query_exec_error_def
        split: sum.splits exn.splits)
  from null list dict other bars empty rows query show ?thesis
    by (intro conjI)
qed

lemma notes_rendered:
  "render_results sample_lib notes_rows =
     Inr ([CHR 0xE6, CHR 0x9F, CHR 0xA5, CHR 0xE8, CHR 0xAF, CHR 0xA2, CHR 0xE7, CHR 0xBB,
           CHR 0x93, CHR 0xE6, CHR 0x9E, CHR 0x9C] @
          '' (2 '' @
          [CHR 0xE8, CHR 0xA1, CHR 0x8C] @
          ''):\<newline>\<newline>'' @
          ''| id | note |\<newline>'' @ ''| --- | --- |\<newline>'' @
          ''| 7 | a'' @ [CHR 0x5C] @ ''|b |\<newline>'' @ ''| NULL | [1, 2] |\<newline>'')"
  by (simp add: render_results_def notes_rows_def format_cell_def cell_text_def is_struct_def
      escape_pipe_def replace_def sample_lib_def zh_query_result_def zh_rows_def str_int_def)

theorem rendered_cells_witness:
  "format_cell sample_lib (PList [PInt 1, PInt 2]) = Inr ''[1, 2]'' \<and>
   format_cell sample_lib (PStr ''a|b'') = Inr [CHR ''a'', CHR 0x5C, CHR ''|'', CHR ''b''] \<and>
   format_cell sample_lib (PInt 7) = Inr ''7'' \<and>
   [CHR ''a'', CHR 0x5C, CHR ''|'', CHR ''b''] ! 2 = CHR ''|'' \<and>
   [CHR ''a'', CHR 0x5C, CHR ''|'', CHR ''b''] ! (2 - 1) = CHR 0x5C \<and>
   render_results sample_lib
     ([(''id'', PInt 7), (''note'', PStr ''a|b'')] # [[(''id'', PNone), (''note'', PList [PInt 1, PInt 2])]]) =
     Inr ([CHR 0xE6, CHR 0x9F, CHR 0xA5, CHR 0xE8, CHR 0xAF, CHR 0xA2, CHR 0xE7, CHR 0xBB,
           CHR 0x93, CHR 0xE6, CHR 0x9E, CHR 0x9C] @
          '' (2 '' @
          [CHR 0xE8, CHR 0xA1, CHR 0x8C] @
          ''):\<newline>\<newline>'' @
          ''| id | note |\<newline>'' @ ''| --- | --- |\<newline>'' @
          ''| 7 | a'' @ [CHR 0x5C] @ ''|b |\<newline>'' @ ''| NULL | [1, 2] |\<newline>'') \<and>
   result_title 2 @
   table_text sample_lib [''id'', ''note'']
     ([(''id'', PInt 7), (''note'', PStr ''a|b'')] # [[(''id'', PNone), (''note'', PList [PInt 1, PInt 2])]]) =
     ([CHR 0xE6, CHR 0x9F, CHR 0xA5, CHR 0xE8, CHR 0xAF, CHR 0xA2, CHR 0xE7, CHR 0xBB,
           CHR 0x93, CHR 0xE6, CHR 0x9E, CHR 0x9C] @
          '' (2 '' @
          [CHR 0xE8, CHR 0xA1, CHR 0x8C] @
          ''):\<newline>\<newline>'' @
          ''| id | note |\<newline>'' @ ''| --- | --- |\<newline>'' @
          ''| 7 | a'' @ [CHR 0x5C] @ ''|b |\<newline>'' @ ''| NULL | [1, 2] |\<newline>'') \<and>
   startswith (lower (strip ''select id, note from notes'')) ''select'' \<and>
   acquire notes_env = None \<and>
   answer notes_env (Query (add_limit (strip ''select id, note from notes'') None)) = Inr notes_rows \<and>
   fst (query_data sample_lib notes_env ''select id, note from notes'' None) =
     Inr ([CHR 0xE6, CHR 0x9F, CHR 0xA5, CHR 0xE8, CHR 0xAF, CHR 0xA2, CHR 0xE7, CHR 0xBB,
           CHR 0x93, CHR 0xE6, CHR 0x9E, CHR 0x9C] @
          '' (2 '' @
          [CHR 0xE8, CHR 0xA1, CHR 0x8C] @
          ''):\<newline>\<newline>'' @
          ''| id | note |\<newline>'' @ ''| --- | --- |\<newline>'' @
          ''| 7 | a'' @ [CHR 0x5C] @ ''|b |\<newline>'' @ ''| NULL | [1, 2] |\<newline>'') \<and>
   acquire empty_env = None \<and>
   answer empty_env (Query (add_limit (strip ''select id, note from notes'') None)) = Inr [] \<and>
   fst (query_data sample_lib empty_env ''select id, note from notes'' None) =
     Inr [CHR 0xE6, CHR 0x9F, CHR 0xA5, CHR 0xE8, CHR 0xAF, CHR 0xA2, CHR 0xE6, CHR 0x89,
         CHR 0xA7, CHR 0xE8, CHR 0xA1, CHR 0x8C, CHR 0xE6, CHR 0x88, CHR 0x90, CHR 0xE5,
         CHR 0x8A, CHR 0x9F, CHR 0xEF, CHR 0xBC, CHR 0x8C, CHR 0xE4, CHR 0xBD, CHR 0x86,
         CHR 0xE6, CHR 0xB2, CHR 0xA1, CHR 0xE6, CHR 0x9C, CHR 0x89, CHR 0xE8, CHR 0xBF,
         CHR 0x94, CHR 0xE5, CHR 0x9B, CHR 0x9E, CHR 0xE6, CHR 0x95, CHR 0xB0, CHR 0xE6,
         CHR 0x8D, CHR 0xAE, CHR 0xE3, CHR 0x80, CHR 0x82]"
proof -
  let ?s = "[CHR ''a'', CHR 0x5C, CHR ''|'', CHR ''b'']"
  let ?sql = "''select id, note from notes''"
  let ?page = "[CHR 0xE6, CHR 0x9F, CHR 0xA5, CHR 0xE8, CHR 0xAF, CHR 0xA2, CHR 0xE7, CHR 0xBB,
           CHR 0x93, CHR 0xE6, CHR 0x9E, CHR 0x9C] @
          '' (2 '' @
          [CHR 0xE8, CHR 0xA1, CHR 0x8C] @
          ''):\<newline>\<newline>'' @
          ''| id | note |\<newline>'' @ ''| --- | --- |\<newline>'' @
          ''| 7 | a'' @ [CHR 0x5C] @ ''|b |\<newline>'' @ ''| NULL | [1, 2] |\<newline>''"
  have nr: "notes_rows = [(''id'', PInt 7), (''note'', PStr ''a|b'')] # [[(''id'', PNone), (''note'', PList [PInt 1, PInt 2])]]"
    by (simp add: notes_rows_def)
  have c: "startswith (lower (strip ?sql)) ''select''"
    by (simp add: startswith_def lower_def lower_char_def strip_def isspace_def isspace2_def
        isspace3_def)
  have d: "acquire notes_env = None"
    and e: "answer notes_env (Query (add_limit (strip ?sql) None)) = Inr notes_rows"
    by (simp_all add: notes_env_def)
  have d': "acquire empty_env = None"
    and e': "answer empty_env (Query (add_limit (strip ?sql) None)) = Inr []"
    by (simp_all add: empty_env_def)
  note t = rendered_cells [where L = sample_lib and xs = "[PInt 1, PInt 2]" and t = "''a|b''"
      and n = 7 and u = "PStr ''a|b''" and s = "?s" and i = 2
      and sql = "?sql" and E = notes_env and limit = None and results = notes_rows
      and first = "[(''id'', PInt 7), (''note'', PStr ''a|b'')]"
      and rest = "[[(''id'', PNone), (''note'', PList [PInt 1, PInt 2])]]"
      and out = "?page"]
  note t' = rendered_cells [where L = sample_lib and sql = "?sql" and E = empty_env
      and limit = None and results = "[]"]
  have f1: "format_cell sample_lib (PList [PInt 1, PInt 2]) = Inr ''[1, 2]''"
    using t by (simp add: sample_lib_def escaped_def)
  have f2: "format_cell sample_lib (PStr ''a|b'') = Inr ?s"
    using t by (simp add: escaped_def)
  have f3: "format_cell sample_lib (PInt 7) = Inr ''7''"
    using t by (simp add: escaped_def str_int_def)
  have f4: "fst (query_data sample_lib notes_env ?sql None) =
     Inr ([CHR 0xE6, CHR 0x9F, CHR 0xA5, CHR 0xE8, CHR 0xAF, CHR 0xA2, CHR 0xE7, CHR 0xBB,
           CHR 0x93, CHR 0xE6, CHR 0x9E, CHR 0x9C] @
          '' (2 '' @
          [CHR 0xE8, CHR 0xA1, CHR 0x8C] @
          ''):\<newline>\<newline>'' @
          ''| id | note |\<newline>'' @ ''| --- | --- |\<newline>'' @
          ''| 7 | a'' @ [CHR 0x5C] @ ''|b |\<newline>'' @ ''| NULL | [1, 2] |\<newline>'')"
    using t c d e by (simp add: notes_rendered)
  have f5: "fst (query_data sample_lib empty_env ?sql None) =
     Inr [CHR 0xE6, CHR 0x9F, CHR 0xA5, CHR 0xE8, CHR 0xAF, CHR 0xA2, CHR 0xE6, CHR 0x89,
         CHR 0xA7, CHR 0xE8, CHR 0xA1, CHR 0x8C, CHR 0xE6, CHR 0x88, CHR 0x90, CHR 0xE5,
         CHR 0x8A, CHR 0x9F, CHR 0xEF, CHR 0xBC, CHR 0x8C, CHR 0xE4, CHR 0xBD, CHR 0x86,
         CHR 0xE6, CHR 0xB2, CHR 0xA1, CHR 0xE6, CHR 0x9C, CHR 0x89, CHR 0xE8, CHR 0xBF,
         CHR 0x94, CHR 0xE5, CHR 0x9B, CHR 0x9E, CHR 0xE6, CHR 0x95, CHR 0xB0, CHR 0xE6,
         CHR 0x8D, CHR 0xAE, CHR 0xE3, CHR 0x80, CHR 0x82]"
    using t' c d' e' by simp
  have f6: "render_results sample_lib
     ([(''id'', PInt 7), (''note'', PStr ''a|b'')] # [[(''id'', PNone), (''note'', PList [PInt 1, PInt 2])]]) = Inr ?page"
    using notes_rendered unfolding nr .
  from t f6 have f7: "?page = result_title (length ([(''id'', PInt 7), (''note'', PStr ''a|b'')] # [[(''id'', PNone), (''note'', PList [PInt 1, PInt 2])]])) @
      table_text sample_lib (map fst [(''id'', PInt 7), (''note'', PStr ''a|b'')])
        ([(''id'', PInt 7), (''note'', PStr ''a|b'')] # [[(''id'', PNone), (''note'', PList [PInt 1, PInt 2])]])"
    by blast
  have f8: "result_title 2 @ table_text sample_lib [''id'', ''note'']
     ([(''id'', PInt 7), (''note'', PStr ''a|b'')] # [[(''id'', PNone), (''note'', PList [PInt 1, PInt 2])]]) = ?page"
    using f7 by (simp add: numeral_2_eq_2)
  show ?thesis
    using c d e d' e' f1 f2 f3 f4 f5 f6 f8 by simp
qed

section \<open>The existence check of \<^verbatim>\<open>table_statistics\<close>\<close>


lemma table_statistics_found:
  assumes "acquire E = None" and "answer E (exists_request name) = Inr rows"
    and "present (fetchone rows)"
  shows "\<exists>rest. snd (table_statistics L E name) =
           Acquire # Execute (exists_request name) # Execute (Query (count_sql name)) # rest"
  using assms
  by (simp add: table_statistics_def statistics_block_def with_connection_def and_then_def execute_def succeed_def
      split: prod.splits sum.splits)

lemma catalog_env_simps:
  "acquire (catalog_env tables agg) = None"
  "answer (catalog_env tables agg) (exists_request p) =
     Inr (map name_row (filter (like_match p) tables))"
  "answer (catalog_env tables agg) (Query (count_sql t)) =
     (if t \<in> set tables then Inr [[(''count'', PInt 2)]] else Inl no_such_table)"
    apply (simp_all add: catalog_env_def exists_request_def)
  apply (auto simp: count_sql_def describe_sql_def numeric_sql_def show_create_sql_def foreign_key_sql_def)
  done


lemma about_table_builders:
  "about_table name ev \<longleftrightarrow>
     ev = Acquire \<or> ev = Release \<or> ev = Execute (exists_request name) \<or>
     ev = Execute (Query (count_sql name)) \<or> ev = Execute (Query (describe_sql name)) \<or>
     (\<exists>c. ev = Execute (Query (numeric_sql name c)) \<or> ev = Execute (Query (text_sql name c)) \<or>
          ev = Execute (Query (other_sql name c)))"
  by (simp add: about_table_def exists_request_def count_sql_def describe_sql_def numeric_sql_def
      text_sql_def other_sql_def)

lemma and_then_events:
  assumes "\<forall>ev \<in> set (snd m). P ev" and "\<And>x. \<forall>ev \<in> set (snd (f x)). P ev"
  shows "\<forall>ev \<in> set (snd (and_then m f)). P ev"
proof (cases m)
  case (Pair r t)
  show ?thesis
  proof (cases r)
    case (Inl e)
    with Pair assms(1) show ?thesis by (simp add: and_then_def)
  next
    case (Inr x)
    obtain r' t' where f: "f x = (r', t')" by (cases "f x")
    from assms(2) [of x] f have "\<forall>ev \<in> set t'. P ev" by simp
    with Pair Inr assms(1) f show ?thesis by (auto simp: and_then_def)
  qed
qed

lemma lift_events: "\<forall>ev \<in> set (snd (lift r)). P ev"
  by (simp add: lift_def)

lemma for_each_events:
  assumes "\<And>x s. \<forall>ev \<in> set (snd (body x s)). P ev"
  shows "\<forall>ev \<in> set (snd (for_each body xs s)). P ev"
proof (induction xs arbitrary: s)
  case Nil
  then show ?case by simp
next
  case (Cons x xs)
  obtain r t where b: "body x s = (r, t)" by (cases "body x s")
  from assms [of x s] b have t: "\<forall>ev \<in> set t. P ev" by simp
  show ?case
  proof (cases r)
    case (Inl e)
    with b t show ?thesis by simp
  next
    case (Inr s')
    obtain r' t' where l: "for_each body xs s' = (r', t')" by (cases "for_each body xs s'")
    from Cons.IH [of s'] l have "\<forall>ev \<in> set t'. P ev" by simp
    with b t Inr l show ?thesis by auto
  qed
qed

lemma column_statistic_trace:
  "snd (column_statistic L E name col stats) = [] \<or>
   (\<exists>c. snd (column_statistic L E name col stats) = [Execute (Query (numeric_sql name c))] \<or>
        snd (column_statistic L E name col stats) = [Execute (Query (text_sql name c))] \<or>
        snd (column_statistic L E name col stats) = [Execute (Query (other_sql name c))])"
  by (auto simp: column_statistic_def and_then_def lift_def execute_def
      split: sum.splits prod.splits)

lemma column_statistic_events:
  "\<forall>ev \<in> set (snd (column_statistic L E name col stats)). about_table name ev"
  using column_statistic_trace [of L E name col stats]
  by (auto simp: about_table_builders)

lemma table_statistics_events:
  "\<forall>ev \<in> set (snd (table_statistics L E name)). about_table name ev"
proof -
  let ?body = "and_then (execute E (exists_request name)) (\<lambda>rows.
                if \<not> present (fetchone rows) then succeed (not_found_message name)
                else
                  and_then (execute E (Query (count_sql name))) (\<lambda>rows.
                    let count = fetchone rows in
                  and_then (execute E (Query (describe_sql name))) (\<lambda>rows.
                    let columns = tuples rows in
                  and_then (for_each (column_statistic L E name) columns []) (\<lambda>stats.
                    lift (stats_report L name count stats)))))"
  have loop: "\<forall>ev \<in> set (snd (for_each (column_statistic L E name) columns [])). about_table name ev"
    for columns
    by (rule for_each_events) (rule column_statistic_events)
  have "\<forall>ev \<in> set (snd ?body). about_table name ev"
    apply (rule and_then_events)
     apply (simp add: execute_def about_table_builders)
    apply (simp add: succeed_def Let_def)
    apply (intro impI and_then_events lift_events allI loop)
     apply (simp_all add: execute_def about_table_builders)
    done
  then have "\<forall>ev \<in> set (snd (with_connection E ?body)). about_table name ev"
    by (auto simp: with_connection_def about_table_builders split: option.splits)
  then show ?thesis
    by (auto simp: table_statistics_def statistics_block_def split: prod.splits sum.splits)
qed


lemma table_statistics_count_fails:
  assumes "acquire E = None" and "answer E (exists_request name) = Inr rows"
    and "present (fetchone rows)" and "answer E (Query (count_sql name)) = Inl e"
  shows "table_statistics L E name =
           (Inr (stats_error e),
            [Acquire, Execute (exists_request name), Execute (Query (count_sql name)), Release])"
  using assms
  by (simp add: table_statistics_def statistics_block_def with_connection_def and_then_def execute_def)

lemma table_statistics_report:
  assumes "acquire E = None" and "answer E (exists_request name) = Inr rows"
    and "present (fetchone rows)" and "answer E (Query (count_sql name)) = Inr counted"
    and "answer E (Query (describe_sql name)) = Inr described"
    and "for_each (column_statistic L E name) (tuples described) [] = (Inr stats, t)"
  shows "table_statistics L E name =
           (Inr (case stats_report L name (fetchone counted) stats of
                   Inl e \<Rightarrow> stats_error e | Inr report \<Rightarrow> report),
            [Acquire, Execute (exists_request name), Execute (Query (count_sql name)),
             Execute (Query (describe_sql name))] @ t @ [Release])"
  using assms
  by (simp add: table_statistics_def statistics_block_def with_connection_def and_then_def execute_def lift_def
      split: sum.splits)

lemma like_row_present:
  assumes "t \<in> set tables" and "like_match name t"
  shows "present (fetchone (map name_row (filter (like_match name) tables)))"
proof -
  from assms have "filter (like_match name) tables \<noteq> []"
    by (auto simp: filter_empty_conv)
  then obtain x xs where "filter (like_match name) tables = x # xs"
    by (cases "filter (like_match name) tables") auto
  then show ?thesis
    by (simp add: fetchone_def present_def name_row_def)
qed

text \<open>
  C9. The existence check of \<open>table_statistics\<close> sends the caller's name as the pattern
  of \<^verbatim>\<open>SHOW TABLES LIKE\<close>. On a database that answers by \<^verbatim>\<open>LIKE\<close>, whenever the name
  matches, as a pattern, the name of a table, the check passes and the next statement
  counts the rows of the table written as the caller's string between backticks; and
  on any database every statement of the run, the row count, the description and the
  aggregates of each column, reads the table written as that string, never another.
  An instance is the name \<^verbatim>\<open>user_\<close>, which holds a wildcard and is not a listed table, on
  a database whose only listed table is \<^verbatim>\<open>users\<close>.
\<close>

theorem existence_check_is_a_pattern:
  "(t \<in> set tables \<and> like_match name t \<longrightarrow>
      (\<exists>rest. snd (table_statistics L (catalog_env tables agg) name) =
         Acquire # Execute (QueryArgs ''SHOW TABLES LIKE %s'' [PStr name])
           # Execute (Query (''SELECT COUNT(*) as count FROM `'' @ name @ ''`'')) # rest)) \<and>
   (\<forall>ev \<in> set (snd (table_statistics L E name)). about_table name ev)"
proof -
  have "\<exists>rest. snd (table_statistics L (catalog_env tables agg) name) =
         Acquire # Execute (exists_request name) # Execute (Query (count_sql name)) # rest"
    if "t \<in> set tables" and "like_match name t"
    using that table_statistics_found [OF catalog_env_simps(1) catalog_env_simps(2) like_row_present]
    by blast
  then show ?thesis
    using table_statistics_events by (simp add: exists_request_def count_sql_def)
qed

lemma temporary_env_answers:
  "acquire temporary_env = None"
  "answer temporary_env (exists_request ''user_'') = Inr [name_row ''users'']"
  "answer temporary_env (Query (count_sql ''user_'')) = Inr [[(''count'', PInt 2)]]"
  "answer temporary_env (Query (describe_sql ''user_'')) = Inr [id_column]"
  "answer temporary_env (Query (numeric_sql ''user_'' ''id'')) = Inr [zero_aggregates]"
  by (simp_all add: temporary_env_def exists_request_def count_sql_def describe_sql_def
      numeric_sql_def)

lemma temporary_env_loop:
  "for_each (column_statistic sample_lib temporary_env ''user_'') (tuples [id_column]) [] =
   (Inr [NumericStat (PStr ''id'') (PStr ''int'') (PInt 0) (PInt 0) PNone PNone],
    [Execute (Query (numeric_sql ''user_'' ''id''))])"
  by (simp add: tuples_def id_column_def column_statistic_def and_then_def lift_def item_def
      lower_of_def lower_def lower_char_def has_any_def numeric_tokens_def execute_def
      temporary_env_answers fetchone_def zero_aggregates_def numeric_stat_def bind_result_def
      item_opt_def rounded_def)

theorem existence_check_is_a_pattern_witness:
  "''users'' \<in> set [''users''] \<and> like_match ''user_'' ''users'' \<and>
   CHR ''_'' \<in> set ''user_'' \<and> ''user_'' \<notin> set [''users''] \<and>
   table_statistics sample_lib (catalog_env [''users''] zero_aggregates) ''user_'' =
     (Inr ([CHR 0xE8, CHR 0x8E, CHR 0xB7, CHR 0xE5, CHR 0x8F, CHR 0x96, CHR 0xE7, CHR 0xBB,
           CHR 0x9F, CHR 0xE8, CHR 0xAE, CHR 0xA1, CHR 0xE4, CHR 0xBF, CHR 0xA1, CHR 0xE6,
           CHR 0x81, CHR 0xAF, CHR 0xE9, CHR 0x94, CHR 0x99, CHR 0xE8, CHR 0xAF, CHR 0xAF] @
          '': (1146, no such table)''),
      [Acquire, Execute (QueryArgs ''SHOW TABLES LIKE %s'' [PStr ''user_'']),
       Execute (Query ''SELECT COUNT(*) as count FROM `user_`''), Release]) \<and>
   snd (table_statistics sample_lib temporary_env ''user_'') =
     [Acquire, Execute (QueryArgs ''SHOW TABLES LIKE %s'' [PStr ''user_'']),
      Execute (Query ''SELECT COUNT(*) as count FROM `user_`''),
      Execute (Query ''DESCRIBE `user_`''),
      Execute (Query
         (''\<newline>'' @ ''                            SELECT \<newline>'' @
          ''                                MIN(`'' @ ''id'' @ ''`) as min_val,\<newline>'' @
          ''                                MAX(`'' @ ''id'' @ ''`) as max_val,\<newline>'' @
          ''                                AVG(`'' @ ''id'' @ ''`) as avg_val,\<newline>'' @
          ''                                STD(`'' @ ''id'' @ ''`) as std_val\<newline>'' @
          ''                            FROM `'' @ ''user_'' @ ''`\<newline>'' @
          ''                        '')),
      Release] \<and>
   about_table ''user_''
     (Execute (Query
         (''\<newline>'' @ ''                            SELECT \<newline>'' @
          ''                                MIN(`'' @ ''id'' @ ''`) as min_val,\<newline>'' @
          ''                                MAX(`'' @ ''id'' @ ''`) as max_val,\<newline>'' @
          ''                                AVG(`'' @ ''id'' @ ''`) as avg_val,\<newline>'' @
          ''                                STD(`'' @ ''id'' @ ''`) as std_val\<newline>'' @
          ''                            FROM `'' @ ''user_'' @ ''`\<newline>'' @
          ''                        '')))"
proof -
  let ?E = "catalog_env [''users''] zero_aggregates"
  have m: "''users'' \<in> set [''users''] \<and> like_match ''user_'' ''users''"
    by simp
  have pr: "present (fetchone [name_row ''users''])"
    by (simp add: fetchone_def present_def name_row_def)
  have run: "table_statistics sample_lib ?E ''user_'' =
     (Inr ([CHR 0xE8, CHR 0x8E, CHR 0xB7, CHR 0xE5, CHR 0x8F, CHR 0x96, CHR 0xE7, CHR 0xBB,
           CHR 0x9F, CHR 0xE8, CHR 0xAE, CHR 0xA1, CHR 0xE4, CHR 0xBF, CHR 0xA1, CHR 0xE6,
           CHR 0x81, CHR 0xAF, CHR 0xE9, CHR 0x94, CHR 0x99, CHR 0xE8, CHR 0xAF, CHR 0xAF] @
          '': (1146, no such table)''),
      [Acquire, Execute (QueryArgs ''SHOW TABLES LIKE %s'' [PStr ''user_'']),
       Execute (Query ''SELECT COUNT(*) as count FROM `user_`''), Release])"
  proof -
    have a: "acquire ?E = None"
      by (simp add: catalog_env_simps)
    have b: "answer ?E (exists_request ''user_'') = Inr [name_row ''users'']"
      by (simp add: catalog_env_simps)
    have d: "answer ?E (Query (count_sql ''user_'')) = Inl no_such_table"
      by (simp add: catalog_env_simps)
    show ?thesis
      using table_statistics_count_fails [OF a b pr d, of sample_lib]
      by (simp add: exists_request_def count_sql_def stats_error_def zh_stats_error_def
          no_such_table_def)
  qed
  have full: "snd (table_statistics sample_lib temporary_env ''user_'') =
     [Acquire, Execute (QueryArgs ''SHOW TABLES LIKE %s'' [PStr ''user_'']),
      Execute (Query ''SELECT COUNT(*) as count FROM `user_`''),
      Execute (Query ''DESCRIBE `user_`''),
      Execute (Query
         (''\<newline>'' @ ''                            SELECT \<newline>'' @
          ''                                MIN(`'' @ ''id'' @ ''`) as min_val,\<newline>'' @
          ''                                MAX(`'' @ ''id'' @ ''`) as max_val,\<newline>'' @
          ''                                AVG(`'' @ ''id'' @ ''`) as avg_val,\<newline>'' @
          ''                                STD(`'' @ ''id'' @ ''`) as std_val\<newline>'' @
          ''                            FROM `'' @ ''user_'' @ ''`\<newline>'' @
          ''                        '')),
      Release]"
    using table_statistics_report [OF temporary_env_answers(1,2) pr temporary_env_answers(3,4)
        temporary_env_loop]
    by (simp add: exists_request_def count_sql_def describe_sql_def numeric_sql_def)
  have "Execute (Query
         (''\<newline>'' @ ''                            SELECT \<newline>'' @
          ''                                MIN(`'' @ ''id'' @ ''`) as min_val,\<newline>'' @
          ''                                MAX(`'' @ ''id'' @ ''`) as max_val,\<newline>'' @
          ''                                AVG(`'' @ ''id'' @ ''`) as avg_val,\<newline>'' @
          ''                                STD(`'' @ ''id'' @ ''`) as std_val\<newline>'' @
          ''                            FROM `'' @ ''user_'' @ ''`\<newline>'' @
          ''                        ''))
        \<in> set (snd (table_statistics sample_lib temporary_env ''user_''))"
    unfolding full by simp
  with existence_check_is_a_pattern [of "''users''" "[''users'']" "''user_''" sample_lib
      zero_aggregates temporary_env]
  have ab: "about_table ''user_''
     (Execute (Query
         (''\<newline>'' @ ''                            SELECT \<newline>'' @
          ''                                MIN(`'' @ ''id'' @ ''`) as min_val,\<newline>'' @
          ''                                MAX(`'' @ ''id'' @ ''`) as max_val,\<newline>'' @
          ''                                AVG(`'' @ ''id'' @ ''`) as avg_val,\<newline>'' @
          ''                                STD(`'' @ ''id'' @ ''`) as std_val\<newline>'' @
          ''                            FROM `'' @ ''user_'' @ ''`\<newline>'' @
          ''                        '')))"
    by blast
  from m run full ab show ?thesis by simp
qed

text \<open>
  C5, at an input where it fails. The database has the one table \<^verbatim>\<open>users\<close>; the name
  \<^verbatim>\<open>%\<close> is not a table. The existence check passes, the row count is asked of the table
  \<^verbatim>\<open>%\<close>, and the answer is the engine's error under the prefix of line 339, not the
  message of line 242.
\<close>

theorem statistics_of_wildcard_name:
  "''%'' \<notin> set [''users''] \<and> like_match ''%'' ''users'' \<and>
   table_statistics sample_lib (catalog_env [''users''] zero_aggregates) ''%'' =
     (Inr (stats_error no_such_table),
      [Acquire, Execute (QueryArgs ''SHOW TABLES LIKE %s'' [PStr ''%'']),
       Execute (Query ''SELECT COUNT(*) as count FROM `%`''), Release])"
proof -
  let ?E = "catalog_env [''users''] zero_aggregates"
  have a: "acquire ?E = None"
    by (simp add: catalog_env_simps)
  have b: "answer ?E (exists_request ''%'') = Inr [name_row ''users'']"
    by (simp add: catalog_env_simps)
  have c: "present (fetchone [name_row ''users''])"
    by (simp add: fetchone_def present_def name_row_def)
  have d: "answer ?E (Query (count_sql ''%'')) = Inl no_such_table"
    by (simp add: catalog_env_simps)
  show ?thesis
    using table_statistics_count_fails [OF a b c d, of sample_lib]
    by (simp add: exists_request_def count_sql_def)
qed

section \<open>Describing a table that is not there\<close>


lemma catalog_env_describe:
  "answer (catalog_env tables agg) (Query (describe_sql t)) =
     (if t \<in> set tables then Inr [id_column] else Inl no_such_table)"
  by (auto simp: catalog_env_def count_sql_def describe_sql_def numeric_sql_def
      show_create_sql_def foreign_key_sql_def)


section \<open>Mean and standard deviation of a numeric column\<close>

lemma rounded_zero:
  "rounded L (PDecimal 0 k) = Inr PNone" "rounded L (PFloat 0 e) = Inr PNone"
  "rounded L (PInt 0) = Inr PNone" "rounded L PNone = Inr PNone"
  by (simp_all add: rounded_def)

lemma catalog_env_numeric:
  "t \<in> set tables \<Longrightarrow> answer (catalog_env tables agg) (Query (numeric_sql t ''id'')) = Inr [agg]"
  by (auto simp: catalog_env_def count_sql_def describe_sql_def numeric_sql_def
      show_create_sql_def foreign_key_sql_def)

lemma users_zero_stats:
  "for_each (column_statistic sample_lib (catalog_env [''users''] zero_aggregates) ''users'')
     (tuples [id_column]) [] =
   (Inr [NumericStat (PStr ''id'') (PStr ''int'') (PInt 0) (PInt 0) PNone PNone],
    [Execute (Query (numeric_sql ''users'' ''id''))])"
  by (simp add: tuples_def id_column_def column_statistic_def and_then_def lift_def item_def
      lower_of_def lower_def lower_char_def has_any_def numeric_tokens_def execute_def
      catalog_env_numeric fetchone_def zero_aggregates_def numeric_stat_def bind_result_def
      item_opt_def rounded_zero)


text \<open>
  C4, at an input where it fails. The table \<^verbatim>\<open>users\<close> has two rows whose \<^verbatim>\<open>id\<close> is 0, so
  \<^verbatim>\<open>AVG\<close> is the decimal \<^verbatim>\<open>0.0000\<close> and \<^verbatim>\<open>STD\<close> the float \<^verbatim>\<open>0.0\<close>: neither is null.
  Lines 274 and 275 test the truth value of the aggregate, and zero is false: both are
  reported as \<^verbatim>\<open>None\<close>.
\<close>

theorem zero_mean_reported_as_none:
  "rounded L (PDecimal 0 4) = Inr PNone \<and> rounded L (PFloat 0 0) = Inr PNone \<and>
   fst (table_statistics sample_lib (catalog_env [''users''] zero_aggregates) ''users'') =
     Inr (''# '' @ zh_table @ '' '' @ [CHR 0x27] @ ''users'' @ [CHR 0x27] @ '' '' @ zh_statistics
          @ ''\<newline>\<newline>'' @ zh_total_rows @ '': 2\<newline>\<newline>'' @ numeric_heading
          @ ''| id | int | 0 | 0 | None | None |\<newline>'' @ ''\<newline>'')"
proof -
  let ?E = "catalog_env [''users''] zero_aggregates"
  have a: "acquire ?E = None"
    by (simp add: catalog_env_simps)
  have b: "answer ?E (exists_request ''users'') = Inr [name_row ''users'']"
    by (simp add: catalog_env_simps)
  have c: "present (fetchone [name_row ''users''])"
    by (simp add: fetchone_def present_def name_row_def)
  have d: "answer ?E (Query (count_sql ''users'')) = Inr [[(''count'', PInt 2)]]"
    by (simp add: catalog_env_simps)
  have e: "answer ?E (Query (describe_sql ''users'')) = Inr [id_column]"
    by (simp add: catalog_env_describe)
  have r: "stats_report sample_lib ''users'' (fetchone [[(''count'', PInt 2)]])
             [NumericStat (PStr ''id'') (PStr ''int'') (PInt 0) (PInt 0) PNone PNone] =
           Inr (''# '' @ zh_table @ '' '' @ [CHR 0x27] @ ''users'' @ [CHR 0x27] @ '' '' @ zh_statistics
          @ ''\<newline>\<newline>'' @ zh_total_rows @ '': 2\<newline>\<newline>'' @ numeric_heading
          @ ''| id | int | 0 | 0 | None | None |\<newline>'' @ ''\<newline>'')"
    by (simp add: stats_report_def fetchone_def item_opt_def item_def bind_result_def
        is_numeric_stat_def is_text_stat_def stat_line_def str_int_def)
  show ?thesis
    using table_statistics_report [OF a b c d e users_zero_stats] r
    by (simp add: rounded_zero)
qed

section \<open>The category of a column\<close>

lemma column_statistic_statement:
  assumes "item col 0 = Inr c" and "item col 1 = Inr (PStr t)"
  shows "snd (column_statistic L E name col stats) = [Execute (Query (column_sql L name c t))]"
  using assms
  by (simp add: column_statistic_def and_then_def lift_def execute_def lower_of_def
      column_sql_def classify_def split: sum.splits)






section \<open>Errors at the boundary\<close>

lemma query_data_returns: "\<exists>text. fst (query_data L E sql limit) = Inr text"
  by (simp add: query_data_def query_block_def succeed_def Let_def split: prod.splits sum.splits)

lemma table_statistics_returns: "\<exists>text. fst (table_statistics L E name) = Inr text"
  by (simp add: table_statistics_def statistics_block_def split: prod.splits sum.splits)

lemma query_data_no_connection:
  assumes "startswith (lower (strip sql)) ''select''" and "acquire E = Some e"
  shows "query_data L E sql limit = (Inr (query_error e), [Acquire])"
  using assms by (simp add: query_data_def query_block_def with_connection_def)

lemma query_data_statement_fails:
  assumes "startswith (lower (strip sql)) ''select''" and "acquire E = None"
    and "answer E (Query (add_limit (strip sql) limit)) = Inl e"
  shows "query_data L E sql limit =
           (Inr (query_error e),
            [Acquire, Execute (Query (add_limit (strip sql) limit)), Release])"
  using assms
  by (simp add: query_data_def query_block_def with_connection_def and_then_def execute_def)

lemma table_statistics_no_connection:
  assumes "acquire E = Some e"
  shows "table_statistics L E name = (Inr (stats_error e), [Acquire])"
  using assms by (simp add: table_statistics_def statistics_block_def with_connection_def)

lemma column_statistic_fails:
  assumes "item col 0 = Inr c" and "item col 1 = Inr (PStr t)"
    and "answer E (Query (column_sql L name c t)) = Inl e"
  shows "fst (column_statistic L E name col stats) = Inl e"
  using assms
  by (auto simp: column_statistic_def and_then_def lift_def execute_def lower_of_def
      column_sql_def classify_def split: if_splits)

lemma for_each_stops:
  assumes "\<And>p s. p \<in> set before \<Longrightarrow> \<exists>s'. fst (body p s) = Inr s'"
    and "\<And>s. body x s = (Inl e, tr)"
  shows "\<exists>t. for_each body (before @ x # after) s = (Inl e, t @ tr)"
  using assms(1)
proof (induction before arbitrary: s)
  case Nil
  show ?case by (simp add: assms(2))
next
  case (Cons p ps)
  from Cons.prems [of p s] obtain s' t where b: "body p s = (Inr s', t)"
    by (cases "body p s") auto
  have "\<exists>t. for_each body (ps @ x # after) s' = (Inl e, t @ tr)"
    by (rule Cons.IH) (simp add: Cons.prems)
  then obtain t' where "for_each body (ps @ x # after) s' = (Inl e, t' @ tr)" ..
  with b have "for_each body ((p # ps) @ x # after) s = (Inl e, (t @ t') @ tr)"
    by simp
  then show ?case ..
qed

lemma table_statistics_stops:
  assumes "acquire E = None" and "answer E (exists_request name) = Inr rows"
    and "present (fetchone rows)" and "answer E (Query (count_sql name)) = Inr counted"
    and "answer E (Query (describe_sql name)) = Inr described"
    and "tuples described = before @ col # after"
    and "\<forall>p \<in> set before. \<forall>stats. \<exists>stats'. fst (column_statistic L E name p stats) = Inr stats'"
    and "item col 0 = Inr c" and "item col 1 = Inr (PStr ty)"
    and "answer E (Query (column_sql L name c ty)) = Inl e"
  shows "\<exists>tr. table_statistics L E name =
           (Inr (stats_error e), tr @ [Execute (Query (column_sql L name c ty)), Release])"
proof -
  have bad: "column_statistic L E name col stats =
               (Inl e, [Execute (Query (column_sql L name c ty))])" for stats
    using column_statistic_fails [OF assms(8-10), of stats]
      column_statistic_statement [OF assms(8,9), of L E name stats]
    by (cases "column_statistic L E name col stats") simp
  have "\<exists>t. for_each (column_statistic L E name) (before @ col # after) [] =
          (Inl e, t @ [Execute (Query (column_sql L name c ty))])"
    by (rule for_each_stops) (use assms(7) bad in auto)
  then obtain t where "for_each (column_statistic L E name) (tuples described) [] =
          (Inl e, t @ [Execute (Query (column_sql L name c ty))])"
    using assms(6) by auto
  with assms(1-5) have "table_statistics L E name =
      (Inr (stats_error e),
       ([Acquire, Execute (exists_request name), Execute (Query (count_sql name)),
         Execute (Query (describe_sql name))] @ t)
       @ [Execute (Query (column_sql L name c ty)), Release])"
    by (simp add: table_statistics_def statistics_block_def with_connection_def and_then_def execute_def)
  then show ?thesis ..
qed

text \<open>
  C6. \<open>query_data\<close> and \<open>table_statistics\<close> always return a text and never raise.
  Whatever exception leaves the suite of the \<^verbatim>\<open>try\<close>, the operation returns the prefix
  of line 224 or of line 339 followed by the text of that exception, and nothing else,
  after the events of the suite. So it is when the pool gives no connection and when
  the engine rejects the statement. In \<open>table_statistics\<close>, when the columns before one
  have their statistics and the statement of that one is rejected, the result is the
  prefix of line 339 followed by the text of that rejection: no report, no statistics of
  the columns before, and the rejected statement is the last one sent.
\<close>

theorem errors_become_text:
  "(\<exists>page. fst (query_data L E sql limit) = Inr page) \<and>
   (\<exists>page. fst (table_statistics L E name) = Inr page) \<and>
   (startswith (lower (strip sql)) ''select'' \<and>
    query_block L E (add_limit (strip sql) limit) = (Inl (Exn k5 m5), tr5) \<longrightarrow>
      query_data L E sql limit =
        (Inr ([CHR 0xE6, CHR 0x9F, CHR 0xA5, CHR 0xE8, CHR 0xAF, CHR 0xA2, CHR 0xE6,
             CHR 0x89, CHR 0xA7, CHR 0xE8, CHR 0xA1, CHR 0x8C, CHR 0xE9, CHR 0x94,
             CHR 0x99, CHR 0xE8, CHR 0xAF, CHR 0xAF] @
            '': '' @ m5),
         tr5)) \<and>
   (statistics_block L E name = (Inl (Exn k6 m6), tr6) \<longrightarrow>
      table_statistics L E name =
        (Inr ([CHR 0xE8, CHR 0x8E, CHR 0xB7, CHR 0xE5, CHR 0x8F, CHR 0x96, CHR 0xE7,
             CHR 0xBB, CHR 0x9F, CHR 0xE8, CHR 0xAE, CHR 0xA1, CHR 0xE4, CHR 0xBF,
             CHR 0xA1, CHR 0xE6, CHR 0x81, CHR 0xAF, CHR 0xE9, CHR 0x94, CHR 0x99,
             CHR 0xE8, CHR 0xAF, CHR 0xAF] @
            '': '' @ m6),
         tr6)) \<and>
   (startswith (lower (strip sql)) ''select'' \<and> acquire E = Some (Exn k1 m1) \<longrightarrow>
      query_data L E sql limit =
        (Inr ([CHR 0xE6, CHR 0x9F, CHR 0xA5, CHR 0xE8, CHR 0xAF, CHR 0xA2, CHR 0xE6,
             CHR 0x89, CHR 0xA7, CHR 0xE8, CHR 0xA1, CHR 0x8C, CHR 0xE9, CHR 0x94,
             CHR 0x99, CHR 0xE8, CHR 0xAF, CHR 0xAF] @
            '': '' @ m1),
         [Acquire])) \<and>
   (startswith (lower (strip sql)) ''select'' \<and> acquire E = None \<and>
    answer E (Query (add_limit (strip sql) limit)) = Inl (Exn k2 m2) \<longrightarrow>
      query_data L E sql limit =
        (Inr ([CHR 0xE6, CHR 0x9F, CHR 0xA5, CHR 0xE8, CHR 0xAF, CHR 0xA2, CHR 0xE6,
             CHR 0x89, CHR 0xA7, CHR 0xE8, CHR 0xA1, CHR 0x8C, CHR 0xE9, CHR 0x94,
             CHR 0x99, CHR 0xE8, CHR 0xAF, CHR 0xAF] @
            '': '' @ m2),
         [Acquire, Execute (Query (add_limit (strip sql) limit)), Release])) \<and>
   (acquire E = Some (Exn k3 m3) \<longrightarrow>
      table_statistics L E name =
        (Inr ([CHR 0xE8, CHR 0x8E, CHR 0xB7, CHR 0xE5, CHR 0x8F, CHR 0x96, CHR 0xE7,
             CHR 0xBB, CHR 0x9F, CHR 0xE8, CHR 0xAE, CHR 0xA1, CHR 0xE4, CHR 0xBF,
             CHR 0xA1, CHR 0xE6, CHR 0x81, CHR 0xAF, CHR 0xE9, CHR 0x94, CHR 0x99,
             CHR 0xE8, CHR 0xAF, CHR 0xAF] @
            '': '' @ m3),
         [Acquire])) \<and>
   (acquire E = None \<and>
    answer E (QueryArgs ''SHOW TABLES LIKE %s'' [PStr name]) = Inr rows \<and>
    present (fetchone rows) \<and>
    answer E (Query (''SELECT COUNT(*) as count FROM `'' @ name @ ''`'')) = Inr counted \<and>
    answer E (Query (''DESCRIBE `'' @ name @ ''`'')) = Inr described \<and>
    tuples described = before @ col # after \<and>
    (\<forall>p \<in> set before. \<forall>stats. \<exists>stats'. fst (column_statistic L E name p stats) = Inr stats') \<and>
    item col 0 = Inr c \<and> item col 1 = Inr (PStr ty) \<and>
    answer E (Query (column_sql L name c ty)) = Inl (Exn k4 m4) \<longrightarrow>
      (\<exists>tr. table_statistics L E name =
         (Inr ([CHR 0xE8, CHR 0x8E, CHR 0xB7, CHR 0xE5, CHR 0x8F, CHR 0x96, CHR 0xE7,
             CHR 0xBB, CHR 0x9F, CHR 0xE8, CHR 0xAE, CHR 0xA1, CHR 0xE4, CHR 0xBF,
             CHR 0xA1, CHR 0xE6, CHR 0x81, CHR 0xAF, CHR 0xE9, CHR 0x94, CHR 0x99,
             CHR 0xE8, CHR 0xAF, CHR 0xAF] @
            '': '' @ m4),
          tr @ [Execute (Query (column_sql L name c ty)), Release])))"
proof -
  have block: "startswith (lower (strip sql)) ''select'' \<and>
    query_block L E (add_limit (strip sql) limit) = (Inl (Exn k5 m5), tr5) \<longrightarrow>
      query_data L E sql limit =
        (Inr ([CHR 0xE6, CHR 0x9F, CHR 0xA5, CHR 0xE8, CHR 0xAF, CHR 0xA2, CHR 0xE6,
             CHR 0x89, CHR 0xA7, CHR 0xE8, CHR 0xA1, CHR 0x8C, CHR 0xE9, CHR 0x94,
             CHR 0x99, CHR 0xE8, CHR 0xAF, CHR 0xAF] @
            '': '' @ m5),
         tr5)"
    by (simp add: query_data_def query_error_def zh_query_exec_error_def)
  have block': "statistics_block L E name = (Inl (Exn k6 m6), tr6) \<longrightarrow>
      table_statistics L E name =
        (Inr ([CHR 0xE8, CHR 0x8E, CHR 0xB7, CHR 0xE5, CHR 0x8F, CHR 0x96, CHR 0xE7,
             CHR 0xBB, CHR 0x9F, CHR 0xE8, CHR 0xAE, CHR 0xA1, CHR 0xE4, CHR 0xBF,
             CHR 0xA1, CHR 0xE6, CHR 0x81, CHR 0xAF, CHR 0xE9, CHR 0x94, CHR 0x99,
             CHR 0xE8, CHR 0xAF, CHR 0xAF] @
            '': '' @ m6),
         tr6)"
    by (simp add: table_statistics_def stats_error_def zh_stats_error_def)
  have pool: "startswith (lower (strip sql)) ''select'' \<and> acquire E = Some (Exn k1 m1) \<longrightarrow>
      query_data L E sql limit =
        (Inr ([CHR 0xE6, CHR 0x9F, CHR 0xA5, CHR 0xE8, CHR 0xAF, CHR 0xA2, CHR 0xE6,
             CHR 0x89, CHR 0xA7, CHR 0xE8, CHR 0xA1, CHR 0x8C, CHR 0xE9, CHR 0x94,
             CHR 0x99, CHR 0xE8, CHR 0xAF, CHR 0xAF] @
            '': '' @ m1),
         [Acquire])"
    by (simp add: query_data_no_connection query_error_def zh_query_exec_error_def)
  have stmt: "startswith (lower (strip sql)) ''select'' \<and> acquire E = None \<and>
    answer E (Query (add_limit (strip sql) limit)) = Inl (Exn k2 m2) \<longrightarrow>
      query_data L E sql limit =
        (Inr ([CHR 0xE6, CHR 0x9F, CHR 0xA5, CHR 0xE8, CHR 0xAF, CHR 0xA2, CHR 0xE6,
             CHR 0x89, CHR 0xA7, CHR 0xE8, CHR 0xA1, CHR 0x8C, CHR 0xE9, CHR 0x94,
             CHR 0x99, CHR 0xE8, CHR 0xAF, CHR 0xAF] @
            '': '' @ m2),
         [Acquire, Execute (Query (add_limit (strip sql) limit)), Release])"
    by (simp add: query_data_statement_fails query_error_def zh_query_exec_error_def)
  have pool': "acquire E = Some (Exn k3 m3) \<longrightarrow>
      table_statistics L E name =
        (Inr ([CHR 0xE8, CHR 0x8E, CHR 0xB7, CHR 0xE5, CHR 0x8F, CHR 0x96, CHR 0xE7,
             CHR 0xBB, CHR 0x9F, CHR 0xE8, CHR 0xAE, CHR 0xA1, CHR 0xE4, CHR 0xBF,
             CHR 0xA1, CHR 0xE6, CHR 0x81, CHR 0xAF, CHR 0xE9, CHR 0x94, CHR 0x99,
             CHR 0xE8, CHR 0xAF, CHR 0xAF] @
            '': '' @ m3),
         [Acquire])"
    by (simp add: table_statistics_no_connection stats_error_def zh_stats_error_def)
  have column: "acquire E = None \<and>
    answer E (QueryArgs ''SHOW TABLES LIKE %s'' [PStr name]) = Inr rows \<and>
    present (fetchone rows) \<and>
    answer E (Query (''SELECT COUNT(*) as count FROM `'' @ name @ ''`'')) = Inr counted \<and>
    answer E (Query (''DESCRIBE `'' @ name @ ''`'')) = Inr described \<and>
    tuples described = before @ col # after \<and>
    (\<forall>p \<in> set before. \<forall>stats. \<exists>stats'. fst (column_statistic L E name p stats) = Inr stats') \<and>
    item col 0 = Inr c \<and> item col 1 = Inr (PStr ty) \<and>
    answer E (Query (column_sql L name c ty)) = Inl (Exn k4 m4) \<longrightarrow>
      (\<exists>tr. table_statistics L E name =
         (Inr ([CHR 0xE8, CHR 0x8E, CHR 0xB7, CHR 0xE5, CHR 0x8F, CHR 0x96, CHR 0xE7,
             CHR 0xBB, CHR 0x9F, CHR 0xE8, CHR 0xAE, CHR 0xA1, CHR 0xE4, CHR 0xBF,
             CHR 0xA1, CHR 0xE6, CHR 0x81, CHR 0xAF, CHR 0xE9, CHR 0x94, CHR 0x99,
             CHR 0xE8, CHR 0xAF, CHR 0xAF] @
            '': '' @ m4),
          tr @ [Execute (Query (column_sql L name c ty)), Release]))"
    using table_statistics_stops [of E name rows counted described before col after L c ty
        "Exn k4 m4"]
    by (simp add: exists_request_def count_sql_def describe_sql_def stats_error_def
        zh_stats_error_def)
  from query_data_returns table_statistics_returns block block' pool stmt pool' column
  show ?thesis
    by (intro conjI)
qed

lemma denied_env_answers:
  "acquire denied_env = None"
  "answer denied_env (exists_request ''users'') = Inr [name_row ''users'']"
  "answer denied_env (Query (count_sql ''users'')) = Inr [[(''count'', PInt 2)]]"
  "answer denied_env (Query (describe_sql ''users'')) = Inr [id_column, email_column]"
  "answer denied_env (Query (numeric_sql ''users'' ''id'')) = Inr [zero_aggregates]"
  "answer denied_env (Query (text_sql ''users'' ''email'')) = Inl denied"
  "answer denied_env (Query ''select 1'') = Inl denied"
  by (simp_all add: denied_env_def exists_request_def count_sql_def describe_sql_def
      numeric_sql_def text_sql_def)

lemma denied_env_loop:
  "for_each (column_statistic sample_lib denied_env ''users'') (tuples [id_column, email_column]) [] =
     (Inl denied,
      [Execute (Query (numeric_sql ''users'' ''id'')), Execute (Query (text_sql ''users'' ''email''))])"
  by (simp add: tuples_def id_column_def email_column_def column_statistic_def and_then_def
      lift_def item_def lower_of_def lower_def lower_char_def has_any_def numeric_tokens_def
      text_tokens_def execute_def denied_env_answers fetchone_def zero_aggregates_def
      numeric_stat_def bind_result_def item_opt_def rounded_zero)


lemma denied_env_id:
  "\<exists>stats'. fst (column_statistic sample_lib denied_env ''users'' (map snd id_column) stats) =
              Inr stats'"
  by (simp add: id_column_def column_statistic_def and_then_def lift_def item_def
      lower_of_def lower_def lower_char_def has_any_def numeric_tokens_def execute_def
      denied_env_answers fetchone_def zero_aggregates_def numeric_stat_def bind_result_def
      item_opt_def rounded_zero)

theorem errors_become_text_witness:
  "startswith (lower (strip ''select 1'')) ''select'' \<and>
   query_block strict_lib basket_env (add_limit (strip ''select 1'') None) =
     (Inl (Exn ''TypeError'' ''Object of type Decimal is not JSON serializable''),
      [Acquire, Execute (Query ''select 1''), Release]) \<and>
   query_data strict_lib basket_env ''select 1'' None =
     (Inr ([CHR 0xE6, CHR 0x9F, CHR 0xA5, CHR 0xE8, CHR 0xAF, CHR 0xA2, CHR 0xE6, CHR 0x89,
           CHR 0xA7, CHR 0xE8, CHR 0xA1, CHR 0x8C, CHR 0xE9, CHR 0x94, CHR 0x99, CHR 0xE8,
           CHR 0xAF, CHR 0xAF] @
          '': Object of type Decimal is not JSON serializable''),
      [Acquire, Execute (Query ''select 1''), Release]) \<and>
   statistics_block sample_lib denied_env ''users'' =
     (Inl (Exn ''OperationalError'' ''(1143, SELECT command denied)''),
      [Acquire, Execute (QueryArgs ''SHOW TABLES LIKE %s'' [PStr ''users'']),
       Execute (Query ''SELECT COUNT(*) as count FROM `users`''),
       Execute (Query ''DESCRIBE `users`''),
       Execute (Query (numeric_sql ''users'' ''id'')),
       Execute (Query (text_sql ''users'' ''email'')), Release]) \<and>
   acquire (denied_env\<lparr>acquire := Some denied\<rparr>) =
     Some (Exn ''OperationalError'' ''(1143, SELECT command denied)'') \<and>
   query_data sample_lib (denied_env\<lparr>acquire := Some denied\<rparr>) ''select 1'' None =
     (Inr ([CHR 0xE6, CHR 0x9F, CHR 0xA5, CHR 0xE8, CHR 0xAF, CHR 0xA2, CHR 0xE6, CHR 0x89,
           CHR 0xA7, CHR 0xE8, CHR 0xA1, CHR 0x8C, CHR 0xE9, CHR 0x94, CHR 0x99, CHR 0xE8,
           CHR 0xAF, CHR 0xAF] @
          '': (1143, SELECT command denied)''),
      [Acquire]) \<and>
   table_statistics sample_lib (denied_env\<lparr>acquire := Some denied\<rparr>) ''users'' =
     (Inr ([CHR 0xE8, CHR 0x8E, CHR 0xB7, CHR 0xE5, CHR 0x8F, CHR 0x96, CHR 0xE7, CHR 0xBB,
           CHR 0x9F, CHR 0xE8, CHR 0xAE, CHR 0xA1, CHR 0xE4, CHR 0xBF, CHR 0xA1, CHR 0xE6,
           CHR 0x81, CHR 0xAF, CHR 0xE9, CHR 0x94, CHR 0x99, CHR 0xE8, CHR 0xAF, CHR 0xAF] @
          '': (1143, SELECT command denied)''),
      [Acquire]) \<and>
   acquire denied_env = None \<and>
   answer denied_env (Query (add_limit (strip ''select 1'') None)) =
     Inl (Exn ''OperationalError'' ''(1143, SELECT command denied)'') \<and>
   query_data sample_lib denied_env ''select 1'' None =
     (Inr ([CHR 0xE6, CHR 0x9F, CHR 0xA5, CHR 0xE8, CHR 0xAF, CHR 0xA2, CHR 0xE6, CHR 0x89,
           CHR 0xA7, CHR 0xE8, CHR 0xA1, CHR 0x8C, CHR 0xE9, CHR 0x94, CHR 0x99, CHR 0xE8,
           CHR 0xAF, CHR 0xAF] @
          '': (1143, SELECT command denied)''),
      [Acquire, Execute (Query ''select 1''), Release]) \<and>
   answer denied_env (Query ''DESCRIBE `users`'') = Inr [id_column, email_column] \<and>
   tuples [id_column, email_column] = [map snd id_column] @ map snd email_column # [] \<and>
   answer denied_env
     (Query (column_sql sample_lib ''users'' (PStr ''email'') ''varchar(255)'')) =
     Inl (Exn ''OperationalError'' ''(1143, SELECT command denied)'') \<and>
   table_statistics sample_lib denied_env ''users'' =
     (Inr ([CHR 0xE8, CHR 0x8E, CHR 0xB7, CHR 0xE5, CHR 0x8F, CHR 0x96, CHR 0xE7, CHR 0xBB,
           CHR 0x9F, CHR 0xE8, CHR 0xAE, CHR 0xA1, CHR 0xE4, CHR 0xBF, CHR 0xA1, CHR 0xE6,
           CHR 0x81, CHR 0xAF, CHR 0xE9, CHR 0x94, CHR 0x99, CHR 0xE8, CHR 0xAF, CHR 0xAF] @
          '': (1143, SELECT command denied)''),
      [Acquire, Execute (QueryArgs ''SHOW TABLES LIKE %s'' [PStr ''users'']),
       Execute (Query ''SELECT COUNT(*) as count FROM `users`''),
       Execute (Query ''DESCRIBE `users`''),
       Execute (Query (numeric_sql ''users'' ''id'')),
       Execute (Query (text_sql ''users'' ''email'')), Release])"
proof -
  let ?P = "denied_env\<lparr>acquire := Some denied\<rparr>"
  let ?col = "map snd email_column"
  have g: "startswith (lower (strip ''select 1'')) ''select''"
    by (simp add: startswith_def lower_def lower_char_def strip_def isspace_def isspace2_def
        isspace3_def)
  have s: "add_limit (strip ''select 1'') None = ''select 1''"
    by (simp add: add_limit_def strip_def isspace_def isspace2_def isspace3_def)
  have p: "acquire ?P = Some (Exn ''OperationalError'' ''(1143, SELECT command denied)'')"
    by (simp add: denied_def)
  have q: "answer denied_env (Query (add_limit (strip ''select 1'') None)) =
             Inl (Exn ''OperationalError'' ''(1143, SELECT command denied)'')"
    by (simp add: s denied_env_answers denied_def)
  have c0: "item ?col 0 = Inr (PStr ''email'')" and c1: "item ?col 1 = Inr (PStr ''varchar(255)'')"
    by (simp_all add: item_def email_column_def)
  have m: "tuples [id_column, email_column] = [map snd id_column] @ ?col # []"
    by (simp add: tuples_def)
  have k: "column_sql sample_lib ''users'' (PStr ''email'') ''varchar(255)'' =
             text_sql ''users'' ''email''"
    by (simp add: column_sql_def classify_def has_any_def numeric_tokens_def text_tokens_def
        lower_def lower_char_def)
  have f: "answer denied_env
     (Query (column_sql sample_lib ''users'' (PStr ''email'') ''varchar(255)'')) =
     Inl (Exn ''OperationalError'' ''(1143, SELECT command denied)'')"
    by (simp add: k denied_env_answers denied_def)
  have pr: "present (fetchone [name_row ''users''])"
    by (simp add: fetchone_def present_def name_row_def)
  have ex: "answer denied_env (QueryArgs ''SHOW TABLES LIKE %s'' [PStr ''users'']) =
              Inr [name_row ''users'']"
    and cn: "answer denied_env (Query (''SELECT COUNT(*) as count FROM `'' @ ''users'' @ ''`'')) =
              Inr [[(''count'', PInt 2)]]"
    and ds: "answer denied_env (Query (''DESCRIBE `'' @ ''users'' @ ''`'')) =
              Inr [id_column, email_column]"
    using denied_env_answers(2-4) by (simp_all add: exists_request_def count_sql_def describe_sql_def)
  have ok: "\<forall>p \<in> set [map snd id_column]. \<forall>stats. \<exists>stats'.
              fst (column_statistic sample_lib denied_env ''users'' p stats) = Inr stats'"
    using denied_env_id by simp
  have qb: "query_block strict_lib basket_env (add_limit (strip ''select 1'') None) =
     (Inl (Exn ''TypeError'' ''Object of type Decimal is not JSON serializable''),
      [Acquire, Execute (Query ''select 1''), Release])"
    unfolding s
    by (simp add: query_block_def with_connection_def and_then_def execute_def lift_def
        basket_env_def basket_rows_def render_results_def format_cell_def cell_text_def
        is_struct_def strict_lib_def not_serializable_def escape_pipe_def replace_def)
  have sb: "statistics_block sample_lib denied_env ''users'' =
     (Inl (Exn ''OperationalError'' ''(1143, SELECT command denied)''),
      [Acquire, Execute (QueryArgs ''SHOW TABLES LIKE %s'' [PStr ''users'']),
       Execute (Query ''SELECT COUNT(*) as count FROM `users`''),
       Execute (Query ''DESCRIBE `users`''),
       Execute (Query (numeric_sql ''users'' ''id'')),
       Execute (Query (text_sql ''users'' ''email'')), Release])"
    using denied_env_answers(1-4) pr denied_env_loop
    by (simp add: statistics_block_def with_connection_def and_then_def execute_def
        exists_request_def count_sql_def describe_sql_def denied_def)
  note t0 = errors_become_text [where L = strict_lib and E = basket_env and sql = "''select 1''"
      and limit = None and ?k5.0 = "''TypeError''"
      and ?m5.0 = "''Object of type Decimal is not JSON serializable''"
      and ?tr5.0 = "[Acquire, Execute (Query ''select 1''), Release]"]
  have r0: "query_data strict_lib basket_env ''select 1'' None =
     (Inr ([CHR 0xE6, CHR 0x9F, CHR 0xA5, CHR 0xE8, CHR 0xAF, CHR 0xA2, CHR 0xE6, CHR 0x89,
           CHR 0xA7, CHR 0xE8, CHR 0xA1, CHR 0x8C, CHR 0xE9, CHR 0x94, CHR 0x99, CHR 0xE8,
           CHR 0xAF, CHR 0xAF] @
          '': Object of type Decimal is not JSON serializable''),
      [Acquire, Execute (Query ''select 1''), Release])"
    using t0 g qb by simp
  note t1 = errors_become_text [where L = sample_lib and E = "?P" and sql = "''select 1''"
      and limit = None and name = "''users''" and ?k1.0 = "''OperationalError''"
      and ?m1.0 = "''(1143, SELECT command denied)''" and ?k3.0 = "''OperationalError''"
      and ?m3.0 = "''(1143, SELECT command denied)''"]
  note t2 = errors_become_text [where L = sample_lib and E = denied_env and sql = "''select 1''"
      and limit = None and name = "''users''" and ?k2.0 = "''OperationalError''"
      and ?m2.0 = "''(1143, SELECT command denied)''" and ?k4.0 = "''OperationalError''"
      and ?m4.0 = "''(1143, SELECT command denied)''"
      and rows = "[name_row ''users'']" and counted = "[[(''count'', PInt 2)]]"
      and described = "[id_column, email_column]" and before = "[map snd id_column]"
      and col = "?col" and after = "[]" and c = "PStr ''email''" and ty = "''varchar(255)''"]
  have r1: "query_data sample_lib ?P ''select 1'' None =
     (Inr ([CHR 0xE6, CHR 0x9F, CHR 0xA5, CHR 0xE8, CHR 0xAF, CHR 0xA2, CHR 0xE6, CHR 0x89,
           CHR 0xA7, CHR 0xE8, CHR 0xA1, CHR 0x8C, CHR 0xE9, CHR 0x94, CHR 0x99, CHR 0xE8,
           CHR 0xAF, CHR 0xAF] @
          '': (1143, SELECT command denied)''),
      [Acquire])"
    using t1 g p by simp
  have r2: "table_statistics sample_lib ?P ''users'' =
     (Inr ([CHR 0xE8, CHR 0x8E, CHR 0xB7, CHR 0xE5, CHR 0x8F, CHR 0x96, CHR 0xE7, CHR 0xBB,
           CHR 0x9F, CHR 0xE8, CHR 0xAE, CHR 0xA1, CHR 0xE4, CHR 0xBF, CHR 0xA1, CHR 0xE6,
           CHR 0x81, CHR 0xAF, CHR 0xE9, CHR 0x94, CHR 0x99, CHR 0xE8, CHR 0xAF, CHR 0xAF] @
          '': (1143, SELECT command denied)''),
      [Acquire])"
    using t1 p by simp
  have r3: "query_data sample_lib denied_env ''select 1'' None =
     (Inr ([CHR 0xE6, CHR 0x9F, CHR 0xA5, CHR 0xE8, CHR 0xAF, CHR 0xA2, CHR 0xE6, CHR 0x89,
           CHR 0xA7, CHR 0xE8, CHR 0xA1, CHR 0x8C, CHR 0xE9, CHR 0x94, CHR 0x99, CHR 0xE8,
           CHR 0xAF, CHR 0xAF] @
          '': (1143, SELECT command denied)''),
      [Acquire, Execute (Query ''select 1''), Release])"
    using t2 g q denied_env_answers(1) unfolding s by simp
  have "\<exists>tr. table_statistics sample_lib denied_env ''users'' =
         (Inr ([CHR 0xE8, CHR 0x8E, CHR 0xB7, CHR 0xE5, CHR 0x8F, CHR 0x96, CHR 0xE7, CHR 0xBB,
           CHR 0x9F, CHR 0xE8, CHR 0xAE, CHR 0xA1, CHR 0xE4, CHR 0xBF, CHR 0xA1, CHR 0xE6,
           CHR 0x81, CHR 0xAF, CHR 0xE9, CHR 0x94, CHR 0x99, CHR 0xE8, CHR 0xAF, CHR 0xAF] @
          '': (1143, SELECT command denied)''),
          tr @ [Execute (Query (column_sql sample_lib ''users'' (PStr ''email'') ''varchar(255)'')),
                Release])"
    using t2 denied_env_answers(1) ex pr cn ds m ok c0 c1 f by simp
  then obtain tr where r4: "table_statistics sample_lib denied_env ''users'' =
         (Inr ([CHR 0xE8, CHR 0x8E, CHR 0xB7, CHR 0xE5, CHR 0x8F, CHR 0x96, CHR 0xE7, CHR 0xBB,
           CHR 0x9F, CHR 0xE8, CHR 0xAE, CHR 0xA1, CHR 0xE4, CHR 0xBF, CHR 0xA1, CHR 0xE6,
           CHR 0x81, CHR 0xAF, CHR 0xE9, CHR 0x94, CHR 0x99, CHR 0xE8, CHR 0xAF, CHR 0xAF] @
          '': (1143, SELECT command denied)''),
          tr @ [Execute (Query (text_sql ''users'' ''email'')), Release])"
    unfolding k by blast
  have "for_each (column_statistic sample_lib denied_env ''users'')
          (tuples [id_column, email_column]) [] =
        (Inl denied,
         [Execute (Query (numeric_sql ''users'' ''id'')),
          Execute (Query (text_sql ''users'' ''email''))])"
    by (rule denied_env_loop)
  with denied_env_answers(1-4) pr
  have tr: "snd (table_statistics sample_lib denied_env ''users'') =
      [Acquire, Execute (QueryArgs ''SHOW TABLES LIKE %s'' [PStr ''users'']),
       Execute (Query ''SELECT COUNT(*) as count FROM `users`''),
       Execute (Query ''DESCRIBE `users`''),
       Execute (Query (numeric_sql ''users'' ''id'')),
       Execute (Query (text_sql ''users'' ''email'')), Release]"
    by (simp add: table_statistics_def statistics_block_def with_connection_def and_then_def execute_def
        exists_request_def count_sql_def describe_sql_def)
  have r5: "table_statistics sample_lib denied_env ''users'' =
     (Inr ([CHR 0xE8, CHR 0x8E, CHR 0xB7, CHR 0xE5, CHR 0x8F, CHR 0x96, CHR 0xE7, CHR 0xBB,
           CHR 0x9F, CHR 0xE8, CHR 0xAE, CHR 0xA1, CHR 0xE4, CHR 0xBF, CHR 0xA1, CHR 0xE6,
           CHR 0x81, CHR 0xAF, CHR 0xE9, CHR 0x94, CHR 0x99, CHR 0xE8, CHR 0xAF, CHR 0xAF] @
          '': (1143, SELECT command denied)''),
      [Acquire, Execute (QueryArgs ''SHOW TABLES LIKE %s'' [PStr ''users'']),
       Execute (Query ''SELECT COUNT(*) as count FROM `users`''),
       Execute (Query ''DESCRIBE `users`''),
       Execute (Query (numeric_sql ''users'' ''id'')),
       Execute (Query (text_sql ''users'' ''email'')), Release])"
    using r4 tr by (metis fst_conv prod.collapse)
  show ?thesis
    using g p qb r0 sb r1 r2 r3 r5 q m f denied_env_answers(1) ds by simp
qed

section \<open>Foreign keys\<close>

lemma key_statement_eq: "foreign_key_sql db t = key_statement db t"
  by (simp add: foreign_key_sql_def key_statement_def)

lemma relation_line_ok:
  "5 \<le> length rel \<Longrightarrow> relation_line L rel = Inr (relation_text L rel)"
  by (simp add: relation_text_def relation_line_def item_def bind_result_def)

lemma relation_lines_ok:
  "list_all (\<lambda>rel. 5 \<le> length rel) rels \<Longrightarrow>
     relation_lines L rels result = Inr (result @ concat (map (relation_text L) rels))"
  by (induction rels arbitrary: result) (simp_all add: relation_line_ok)

lemma section_heading_eq: "relations_header t = section_heading t"
  by (simp add: relations_header_def section_heading_def zh_table_def zh_foreign_keys_of_def
      zh_column_name_def zh_constraint_name_def zh_referenced_table_def zh_referenced_column_def)

lemma table_relations_ok:
  assumes "db_name E = Some db" and "answers_foreign_keys E db t"
  shows "table_relations L E [PStr t] (result, has) =
           (Inr (result @ relations_section L E db t, has \<or> foreign_keys E db t \<noteq> []),
            [Execute (Query (key_statement db t))])"
proof -
  from assms(2) obtain rows where
    a: "answer E (Query (key_statement db t)) = Inr rows" and
    w: "list_all (\<lambda>rel. 5 \<le> length rel) (tuples rows)"
    by (auto simp: answers_foreign_keys_def)
  have fk: "foreign_keys E db t = tuples rows"
    by (simp add: foreign_keys_def a)
  have d: "db_text E = db"
    by (simp add: db_text_def assms(1))
  show ?thesis
    by (simp add: table_relations_def and_then_def lift_def item_def execute_def d
        key_statement_eq a fk relations_section_def relation_lines_ok [OF w] bind_result_def
        succeed_def section_heading_eq)
qed

lemma relations_loop:
  assumes "db_name E = Some db" and "list_all (answers_foreign_keys E db) ts"
  shows "for_each (table_relations L E) (map (\<lambda>t. [PStr t]) ts) (result, has) =
           (Inr (result @ concat (map (relations_section L E db) ts),
                 has \<or> list_ex (\<lambda>t. foreign_keys E db t \<noteq> []) ts),
            map (\<lambda>t. Execute (Query (key_statement db t))) ts)"
  using assms(2)
proof (induction ts arbitrary: result has)
  case Nil
  then show ?case by simp
next
  case (Cons t ts)
  from Cons.prems have t: "answers_foreign_keys E db t"
    and ts: "list_all (answers_foreign_keys E db) ts"
    by simp_all
  show ?case
    by (simp add: table_relations_ok [OF assms(1) t] Cons.IH [OF ts] disj_assoc)
qed

lemma no_sections:
  "\<not> list_ex (\<lambda>t. foreign_keys E db t \<noteq> []) ts \<Longrightarrow>
     concat (map (relations_section L E db) ts) = []"
  by (induction ts) (simp_all add: relations_section_def)

lemma get_relationships_ok:
  assumes "acquire E = None" and "db_name E = Some db"
    and "answer E (Query ''SHOW TABLES'') = Inr rows"
    and "tuples rows = map (\<lambda>t. [PStr t]) ts" and "list_all (answers_foreign_keys E db) ts"
  shows "get_relationships L E =
           (Inr (relations_title @ concat (map (relations_section L E db) ts)
                 @ (if list_ex (\<lambda>t. foreign_keys E db t \<noteq> []) ts then []
                    else no_relations_message)),
            Acquire # Execute (Query ''SHOW TABLES'')
              # map (\<lambda>t. Execute (Query (key_statement db t))) ts @ [Release])"
  using assms(1,3,4)
  by (simp add: get_relationships_def with_connection_def and_then_def execute_def succeed_def
      relations_loop [OF assms(2,5)])

text \<open>
  C8. \<open>get_relationships\<close> asks, for every table of \<^verbatim>\<open>SHOW TABLES\<close> in turn, for the
  rows of \<^verbatim>\<open>INFORMATION_SCHEMA.KEY_COLUMN_USAGE\<close> \<^verbatim>\<open>WHERE REFERENCED_TABLE_SCHEMA =\<close> the
  configured database \<^verbatim>\<open>AND TABLE_NAME =\<close> the table: the statement is \<open>key_statement\<close>, and
  no other statement is sent. When the engine answers, the result is the title followed,
  table by table, by the section of every table that has foreign keys: a heading that
  names the table, and one line per key. When no table has any, the result is the title
  followed by the fixed line of line 163: a returned text, not an error.
\<close>

theorem relationships_by_table:
  "(acquire E = None \<and> db_name E = Some db \<and> answer E (Query ''SHOW TABLES'') = Inr rows \<and>
    tuples rows = map (\<lambda>t. [PStr t]) ts \<and> list_all (answers_foreign_keys E db) ts \<longrightarrow>
      get_relationships L E =
        (Inr (''# '' @
            [CHR 0xE6, CHR 0x95, CHR 0xB0, CHR 0xE6, CHR 0x8D, CHR 0xAE, CHR 0xE5,
             CHR 0xBA, CHR 0x93, CHR 0xE5, CHR 0x85, CHR 0xB3, CHR 0xE7, CHR 0xB3,
             CHR 0xBB] @
            ''\<newline>\<newline>'' @
              concat (map (relations_section L E db) ts) @
              (if list_ex (\<lambda>t. foreign_keys E db t \<noteq> []) ts then []
               else [CHR 0xE6, CHR 0x9C, CHR 0xAA, CHR 0xE6, CHR 0x89, CHR 0xBE, CHR 0xE5,
                     CHR 0x88, CHR 0xB0, CHR 0xE8, CHR 0xA1, CHR 0xA8, CHR 0xE4, CHR 0xB9,
                     CHR 0x8B, CHR 0xE9, CHR 0x97, CHR 0xB4, CHR 0xE7, CHR 0x9A, CHR 0x84,
                     CHR 0xE5, CHR 0x85, CHR 0xB3, CHR 0xE7, CHR 0xB3, CHR 0xBB, CHR 0xE3,
                     CHR 0x80, CHR 0x82] @
                    ''\<newline>'')),
         Acquire # Execute (Query ''SHOW TABLES'')
           # map (\<lambda>t. Execute (Query (key_statement db t))) ts @ [Release])) \<and>
   (acquire E = None \<and> db_name E = Some db \<and> answer E (Query ''SHOW TABLES'') = Inr rows \<and>
    tuples rows = map (\<lambda>t. [PStr t]) ts \<and> list_all (answers_foreign_keys E db) ts \<and>
    \<not> list_ex (\<lambda>t. foreign_keys E db t \<noteq> []) ts \<longrightarrow>
      fst (get_relationships L E) =
        Inr (''# '' @
            [CHR 0xE6, CHR 0x95, CHR 0xB0, CHR 0xE6, CHR 0x8D, CHR 0xAE, CHR 0xE5,
             CHR 0xBA, CHR 0x93, CHR 0xE5, CHR 0x85, CHR 0xB3, CHR 0xE7, CHR 0xB3,
             CHR 0xBB] @
            ''\<newline>\<newline>'' @
             [CHR 0xE6, CHR 0x9C, CHR 0xAA, CHR 0xE6, CHR 0x89, CHR 0xBE, CHR 0xE5,
             CHR 0x88, CHR 0xB0, CHR 0xE8, CHR 0xA1, CHR 0xA8, CHR 0xE4, CHR 0xB9,
             CHR 0x8B, CHR 0xE9, CHR 0x97, CHR 0xB4, CHR 0xE7, CHR 0x9A, CHR 0x84,
             CHR 0xE5, CHR 0x85, CHR 0xB3, CHR 0xE7, CHR 0xB3, CHR 0xBB, CHR 0xE3,
             CHR 0x80, CHR 0x82] @
            ''\<newline>''))"
proof -
  have full: "acquire E = None \<and> db_name E = Some db \<and>
    answer E (Query ''SHOW TABLES'') = Inr rows \<and>
    tuples rows = map (\<lambda>t. [PStr t]) ts \<and> list_all (answers_foreign_keys E db) ts \<longrightarrow>
      get_relationships L E =
        (Inr (''# '' @
            [CHR 0xE6, CHR 0x95, CHR 0xB0, CHR 0xE6, CHR 0x8D, CHR 0xAE, CHR 0xE5,
             CHR 0xBA, CHR 0x93, CHR 0xE5, CHR 0x85, CHR 0xB3, CHR 0xE7, CHR 0xB3,
             CHR 0xBB] @
            ''\<newline>\<newline>'' @
              concat (map (relations_section L E db) ts) @
              (if list_ex (\<lambda>t. foreign_keys E db t \<noteq> []) ts then []
               else [CHR 0xE6, CHR 0x9C, CHR 0xAA, CHR 0xE6, CHR 0x89, CHR 0xBE, CHR 0xE5,
                     CHR 0x88, CHR 0xB0, CHR 0xE8, CHR 0xA1, CHR 0xA8, CHR 0xE4, CHR 0xB9,
                     CHR 0x8B, CHR 0xE9, CHR 0x97, CHR 0xB4, CHR 0xE7, CHR 0x9A, CHR 0x84,
                     CHR 0xE5, CHR 0x85, CHR 0xB3, CHR 0xE7, CHR 0xB3, CHR 0xBB, CHR 0xE3,
                     CHR 0x80, CHR 0x82] @
                    ''\<newline>'')),
         Acquire # Execute (Query ''SHOW TABLES'')
           # map (\<lambda>t. Execute (Query (key_statement db t))) ts @ [Release])"
    using get_relationships_ok [of E db rows ts L]
    by (simp add: relations_title_def no_relations_message_def zh_database_relations_def
        zh_no_relations_found_def)
  have none: "acquire E = None \<and> db_name E = Some db \<and>
    answer E (Query ''SHOW TABLES'') = Inr rows \<and>
    tuples rows = map (\<lambda>t. [PStr t]) ts \<and> list_all (answers_foreign_keys E db) ts \<and>
    \<not> list_ex (\<lambda>t. foreign_keys E db t \<noteq> []) ts \<longrightarrow>
      fst (get_relationships L E) =
        Inr (''# '' @
            [CHR 0xE6, CHR 0x95, CHR 0xB0, CHR 0xE6, CHR 0x8D, CHR 0xAE, CHR 0xE5,
             CHR 0xBA, CHR 0x93, CHR 0xE5, CHR 0x85, CHR 0xB3, CHR 0xE7, CHR 0xB3,
             CHR 0xBB] @
            ''\<newline>\<newline>'' @
             [CHR 0xE6, CHR 0x9C, CHR 0xAA, CHR 0xE6, CHR 0x89, CHR 0xBE, CHR 0xE5,
             CHR 0x88, CHR 0xB0, CHR 0xE8, CHR 0xA1, CHR 0xA8, CHR 0xE4, CHR 0xB9,
             CHR 0x8B, CHR 0xE9, CHR 0x97, CHR 0xB4, CHR 0xE7, CHR 0x9A, CHR 0x84,
             CHR 0xE5, CHR 0x85, CHR 0xB3, CHR 0xE7, CHR 0xB3, CHR 0xBB, CHR 0xE3,
             CHR 0x80, CHR 0x82] @
            ''\<newline>'')"
    using full no_sections [of E db ts L] by auto
  from full none show ?thesis
    by (intro conjI)
qed

lemma linked_env_answers:
  "acquire linked_env = None" "db_name linked_env = Some ''shop''"
  "answer linked_env (Query ''SHOW TABLES'') = Inr [name_row ''users'', name_row ''orders'']"
  "answer linked_env (Query (key_statement ''shop'' ''users'')) = Inr []"
  "answer linked_env (Query (key_statement ''shop'' ''orders'')) = Inr [order_key]"
  by (simp_all add: linked_env_def key_statement_def)

lemma catalog_env_foreign_keys:
  "db_name (catalog_env tables agg) = Some ''shop''"
  "answer (catalog_env tables agg) (Query ''SHOW TABLES'') = Inr (map name_row tables)"
  "t \<in> set tables \<Longrightarrow>
     answer (catalog_env tables agg) (Query (key_statement ''shop'' t)) = Inr []"
  by (auto simp: catalog_env_def count_sql_def describe_sql_def numeric_sql_def
      show_create_sql_def foreign_key_sql_def key_statement_def)

theorem relationships_by_table_witness:
  "acquire linked_env = None \<and> db_name linked_env = Some ''shop'' \<and>
   answer linked_env (Query ''SHOW TABLES'') = Inr [name_row ''users'', name_row ''orders''] \<and>
   tuples [name_row ''users'', name_row ''orders''] = map (\<lambda>t. [PStr t]) [''users'', ''orders''] \<and>
   list_all (answers_foreign_keys linked_env ''shop'') [''users'', ''orders''] \<and>
   get_relationships sample_lib linked_env =
     (Inr (''# '' @
          [CHR 0xE6, CHR 0x95, CHR 0xB0, CHR 0xE6, CHR 0x8D, CHR 0xAE, CHR 0xE5, CHR 0xBA,
           CHR 0x93, CHR 0xE5, CHR 0x85, CHR 0xB3, CHR 0xE7, CHR 0xB3, CHR 0xBB] @
          ''\<newline>\<newline>## '' @
          [CHR 0xE8, CHR 0xA1, CHR 0xA8] @
          '' `orders` '' @
          [CHR 0xE7, CHR 0x9A, CHR 0x84, CHR 0xE5, CHR 0xA4, CHR 0x96, CHR 0xE9, CHR 0x94,
           CHR 0xAE, CHR 0xE5, CHR 0x85, CHR 0xB3, CHR 0xE7, CHR 0xB3, CHR 0xBB] @
          ''\<newline>\<newline>| '' @
          [CHR 0xE5, CHR 0x88, CHR 0x97, CHR 0xE5, CHR 0x90, CHR 0x8D] @
          '' | '' @
          [CHR 0xE7, CHR 0xBA, CHR 0xA6, CHR 0xE6, CHR 0x9D, CHR 0x9F, CHR 0xE5, CHR 0x90,
           CHR 0x8D] @
          '' | '' @
          [CHR 0xE5, CHR 0xBC, CHR 0x95, CHR 0xE7, CHR 0x94, CHR 0xA8, CHR 0xE8, CHR 0xA1,
           CHR 0xA8] @
          '' | '' @
          [CHR 0xE5, CHR 0xBC, CHR 0x95, CHR 0xE7, CHR 0x94, CHR 0xA8, CHR 0xE5, CHR 0x88,
           CHR 0x97] @
          '' |\<newline>| ---- | ------ | ------ | ------ |\<newline>| user_id | orders_user | users | id |\<newline>\<newline>''),
      [Acquire, Execute (Query ''SHOW TABLES''),
       Execute (Query (key_statement ''shop'' ''users'')),
       Execute (Query (key_statement ''shop'' ''orders'')), Release]) \<and>
   list_all (answers_foreign_keys (catalog_env [''users'', ''orders''] zero_aggregates) ''shop'')
     [''users'', ''orders''] \<and>
   \<not> list_ex (\<lambda>t. foreign_keys (catalog_env [''users'', ''orders''] zero_aggregates) ''shop'' t \<noteq> [])
       [''users'', ''orders''] \<and>
   fst (get_relationships sample_lib (catalog_env [''users'', ''orders''] zero_aggregates)) =
     Inr (''# '' @
          [CHR 0xE6, CHR 0x95, CHR 0xB0, CHR 0xE6, CHR 0x8D, CHR 0xAE, CHR 0xE5, CHR 0xBA,
           CHR 0x93, CHR 0xE5, CHR 0x85, CHR 0xB3, CHR 0xE7, CHR 0xB3, CHR 0xBB] @
          ''\<newline>\<newline>'' @
          [CHR 0xE6, CHR 0x9C, CHR 0xAA, CHR 0xE6, CHR 0x89, CHR 0xBE, CHR 0xE5, CHR 0x88,
           CHR 0xB0, CHR 0xE8, CHR 0xA1, CHR 0xA8, CHR 0xE4, CHR 0xB9, CHR 0x8B, CHR 0xE9,
           CHR 0x97, CHR 0xB4, CHR 0xE7, CHR 0x9A, CHR 0x84, CHR 0xE5, CHR 0x85, CHR 0xB3,
           CHR 0xE7, CHR 0xB3, CHR 0xBB, CHR 0xE3, CHR 0x80, CHR 0x82] @
          ''\<newline>'')"
proof -
  let ?C = "catalog_env [''users'', ''orders''] zero_aggregates"
  let ?ts = "[''users'', ''orders'']"
  have tp: "tuples [name_row ''users'', name_row ''orders''] = map (\<lambda>t. [PStr t]) ?ts"
    by (simp add: tuples_def name_row_def)
  have fkl: "foreign_keys linked_env ''shop'' ''users'' = []"
    "foreign_keys linked_env ''shop'' ''orders'' = [map snd order_key]"
    by (simp_all add: foreign_keys_def linked_env_answers tuples_def)
  have al: "list_all (answers_foreign_keys linked_env ''shop'') ?ts"
    by (simp add: answers_foreign_keys_def linked_env_answers tuples_def order_key_def)
  have fkc: "foreign_keys ?C ''shop'' ''users'' = []" "foreign_keys ?C ''shop'' ''orders'' = []"
    by (simp_all add: foreign_keys_def catalog_env_foreign_keys tuples_def)
  have ac: "list_all (answers_foreign_keys ?C ''shop'') ?ts"
    by (simp add: answers_foreign_keys_def catalog_env_foreign_keys tuples_def)
  have nc: "\<not> list_ex (\<lambda>t. foreign_keys ?C ''shop'' t \<noteq> []) ?ts"
    by (simp add: fkc)
  have sc: "answer ?C (Query ''SHOW TABLES'') = Inr [name_row ''users'', name_row ''orders'']"
    by (simp add: catalog_env_foreign_keys)
  have line: "relation_text sample_lib (map snd order_key) =
                ''| user_id | orders_user | users | id |\<newline>''"
    by (simp add: relation_text_def order_key_def)
  note t1 = relationships_by_table [where E = linked_env and L = sample_lib and ts = "?ts"
      and db = "''shop''" and rows = "[name_row ''users'', name_row ''orders'']"]
  note t2 = relationships_by_table [where E = "?C" and L = sample_lib and ts = "?ts"
      and db = "''shop''" and rows = "[name_row ''users'', name_row ''orders'']"]
  have r1: "get_relationships sample_lib linked_env =
     (Inr (''# '' @
          [CHR 0xE6, CHR 0x95, CHR 0xB0, CHR 0xE6, CHR 0x8D, CHR 0xAE, CHR 0xE5, CHR 0xBA,
           CHR 0x93, CHR 0xE5, CHR 0x85, CHR 0xB3, CHR 0xE7, CHR 0xB3, CHR 0xBB] @
          ''\<newline>\<newline>## '' @
          [CHR 0xE8, CHR 0xA1, CHR 0xA8] @
          '' `orders` '' @
          [CHR 0xE7, CHR 0x9A, CHR 0x84, CHR 0xE5, CHR 0xA4, CHR 0x96, CHR 0xE9, CHR 0x94,
           CHR 0xAE, CHR 0xE5, CHR 0x85, CHR 0xB3, CHR 0xE7, CHR 0xB3, CHR 0xBB] @
          ''\<newline>\<newline>| '' @
          [CHR 0xE5, CHR 0x88, CHR 0x97, CHR 0xE5, CHR 0x90, CHR 0x8D] @
          '' | '' @
          [CHR 0xE7, CHR 0xBA, CHR 0xA6, CHR 0xE6, CHR 0x9D, CHR 0x9F, CHR 0xE5, CHR 0x90,
           CHR 0x8D] @
          '' | '' @
          [CHR 0xE5, CHR 0xBC, CHR 0x95, CHR 0xE7, CHR 0x94, CHR 0xA8, CHR 0xE8, CHR 0xA1,
           CHR 0xA8] @
          '' | '' @
          [CHR 0xE5, CHR 0xBC, CHR 0x95, CHR 0xE7, CHR 0x94, CHR 0xA8, CHR 0xE5, CHR 0x88,
           CHR 0x97] @
          '' |\<newline>| ---- | ------ | ------ | ------ |\<newline>| user_id | orders_user | users | id |\<newline>\<newline>''),
      [Acquire, Execute (Query ''SHOW TABLES''),
       Execute (Query (key_statement ''shop'' ''users'')),
       Execute (Query (key_statement ''shop'' ''orders'')), Release])"
    using t1 linked_env_answers(1,2,3) tp al
    by (simp add: relations_section_def fkl line section_heading_def)
  have r2: "fst (get_relationships sample_lib ?C) =
     Inr (''# '' @
          [CHR 0xE6, CHR 0x95, CHR 0xB0, CHR 0xE6, CHR 0x8D, CHR 0xAE, CHR 0xE5, CHR 0xBA,
           CHR 0x93, CHR 0xE5, CHR 0x85, CHR 0xB3, CHR 0xE7, CHR 0xB3, CHR 0xBB] @
          ''\<newline>\<newline>'' @
          [CHR 0xE6, CHR 0x9C, CHR 0xAA, CHR 0xE6, CHR 0x89, CHR 0xBE, CHR 0xE5, CHR 0x88,
           CHR 0xB0, CHR 0xE8, CHR 0xA1, CHR 0xA8, CHR 0xE4, CHR 0xB9, CHR 0x8B, CHR 0xE9,
           CHR 0x97, CHR 0xB4, CHR 0xE7, CHR 0x9A, CHR 0x84, CHR 0xE5, CHR 0x85, CHR 0xB3,
           CHR 0xE7, CHR 0xB3, CHR 0xBB, CHR 0xE3, CHR 0x80, CHR 0x82] @
          ''\<newline>'')"
    using t2 catalog_env_simps(1) catalog_env_foreign_keys(1) sc tp ac nc by blast
  show ?thesis
    using linked_env_answers(1,2,3) tp al r1 ac nc r2 by simp
qed

end
